theory Spec2Isabelle
  imports Complex_Main "HOL-Library.Sublist"
begin

section \<open>JavaScript values\<close>

text \<open>
  A row of a child table is a JavaScript object read and written through property names
  that the scanner takes from its options.  The doctype's schema fixes which properties
  hold text (Data, Link, Small Text) and which hold numbers (Float, Int, Check), so a row
  has a map for each; a third map holds the properties whose value is neither a text nor
  a finite number: \<open>undefined\<close> (the property exists and holds no value),
  \<open>null\<close> and \<open>NaN\<close>.  A property is read in the text map, then in the number
  map, then in the third; one that is in none of them is missing from the object and reads
  as \<open>undefined\<close>.  The tests of the scanner read a missing property, \<open>undefined\<close>
  and \<open>null\<close> alike; \<open>add_child_for_remaining_qty\<close> tells them apart when it
  copies the properties of a row and when it multiplies.  \<open>NaN\<close> is what that
  multiplication gives without a conversion factor; a property that holds it has no number
  in the number map.  Numbers are exact rationals: sums, differences and products are not
  rounded to doubles.
\<close>

type_synonym field = string

datatype void = Undefined | Null | NaN

record row =
  str :: "field \<rightharpoonup> string"
  num :: "field \<rightharpoonup> rat"
  void :: "field \<rightharpoonup> void"

text \<open>\<open>key in row\<close>: the object has the property, whatever it holds.\<close>

definition has_key :: "row \<Rightarrow> field \<Rightarrow> bool" where
  "has_key r k = (str r k \<noteq> None \<or> num r k \<noteq> None \<or> void r k \<noteq> None)"

text \<open>Truthiness: \<open>undefined\<close>, \<open>null\<close>, the empty string and \<open>0\<close> are falsy.\<close>

definition truthy :: "string option \<Rightarrow> bool" where
  "truthy v = (case v of None \<Rightarrow> False | Some s \<Rightarrow> s \<noteq> [])"

definition truthy_num :: "rat option \<Rightarrow> bool" where
  "truthy_num v = (case v of None \<Rightarrow> False | Some n \<Rightarrow> n \<noteq> 0)"

definition truthy_flag :: "bool option \<Rightarrow> bool" where
  "truthy_flag v = (case v of None \<Rightarrow> False | Some b \<Rightarrow> b)"

text \<open>\<open>a || b\<close>: the first operand when it is truthy, the second otherwise.\<close>

definition js_or :: "string option \<Rightarrow> string option \<Rightarrow> string option" where
  "js_or a b = (if truthy a then a else b)"

text \<open>The framework's \<open>flt\<close>: the number, and \<open>0\<close> for a missing value.\<close>

definition flt :: "rat option \<Rightarrow> rat" where
  "flt v = (case v of None \<Rightarrow> 0 | Some n \<Rightarrow> n)"

text \<open>
  A value used as a property name or as the argument of \<open>String.prototype.includes\<close>
  is converted to a string; \<open>undefined\<close> becomes the text \<open>undefined\<close>.
\<close>

definition to_str :: "string option \<Rightarrow> string" where
  "to_str v = (case v of None \<Rightarrow> ''undefined'' | Some s \<Rightarrow> s)"

text \<open>\<open>hay.includes(needle)\<close> on strings: \<open>needle\<close> occurs as a contiguous part.\<close>

definition js_includes :: "string \<Rightarrow> string \<Rightarrow> bool" where
  "js_includes hay needle = sublist needle hay"

text \<open>\<open>s.split("\n")\<close>.\<close>

fun split_nl :: "string \<Rightarrow> string list" where
  "split_nl [] = [[]]"
| "split_nl (c # cs) =
     (if c = CHR 0x0A then [] # split_nl cs
      else (case split_nl cs of [] \<Rightarrow> [[c]] | l # ls \<Rightarrow> (c # l) # ls))"

text \<open>\<open>xs.find(P)\<close> returns the first element that satisfies \<open>P\<close>; rows are objects
  with identity, so the model returns the position of that element.\<close>

fun find_row :: "('a \<Rightarrow> bool) \<Rightarrow> 'a list \<Rightarrow> nat option" where
  "find_row P [] = None"
| "find_row P (x # xs) = (if P x then Some 0 else map_option Suc (find_row P xs))"

section \<open>The barcode scanner: data\<close>

text \<open>The reply of the scan API (\<open>r.message\<close>); a key that is absent is \<open>None\<close>.\<close>

record scan_data =
  item_code :: "string option"
  barcode :: "string option"
  batch_no :: "string option"
  serial_no :: "string option"
  uom :: "string option"
  default_warehouse :: "string option"
  warehouse :: "string option"
  has_batch_no :: "bool option"
  has_serial_no :: "bool option"

datatype alert =
    Cannot_Find_Item_Or_Warehouse
  | Cannot_Find_Item
  | Maximum_Quantity_Scanned "string option"
  | Serial_No_Already_Added "string option"
  | Qty_Increased "rat option" rat
  | Item_Added "rat option"
  | Warehouse_Will_Be_Set "string option"
  | Warehouse_Cleared

text \<open>What the scanner does to the outside, in the order in which it does it.\<close>

datatype event =
    Api_Call string
  | Show_Alert alert string
  | Play_Success
  | Play_Fail
  | Clean_Up
  | Add_Child nat
  | Hide_Selector
  | Set_Value nat field
  | Prompt_Shown
  | Dialog_Shown nat
  | Dialog_Hidden
  | Revert_Flags

text \<open>
  The dialog of \<open>prepare_item_for_scan\<close>: the row and item it was opened for, and the
  values of its fields (\<open>dialog.get_value\<close>); the batch, serial and barcode fields
  exist only when the scan carried them.
\<close>

record dialog =
  d_row :: nat
  d_item_code :: "string option"
  d_qty :: "rat option"
  d_scanned_qty :: "rat option"
  d_batch_no :: "string option"
  d_serial_no :: "string option"
  d_barcode :: "string option"

text \<open>
  The form, the scanner's own fields and the process-wide flags the scanner touches: the
  rows of the items table (\<open>frm.doc[items_table_name]\<close>), the document's
  \<open>last_scanned_warehouse\<close>, \<open>frm.has_items\<close>, the value of the scan field, the two
  \<open>frappe.flags\<close>, \<open>this.dialog\<close>, \<open>this.remaining_qty\<close>, and the trace of
  effects.
\<close>

record frm =
  items :: "row list"
  last_scanned_warehouse :: "string option"
  has_items :: bool
  scan_value :: "string option"
  hide_serial_batch_dialog :: bool
  trigger_from_barcode_scanner :: bool
  last_scanned_warehouse_initialized :: bool
  dialog :: "dialog option"
  remaining_qty :: "rat option"
  trace :: "event list"

text \<open>
  \<open>opts.warehouse_field\<close> is a property name or a function of the document
  (\<open>frm.doc\<close>: here its rows and its \<open>last_scanned_warehouse\<close>).
\<close>

datatype warehouse_opt =
  Field_Name field | Field_Fun "row list \<Rightarrow> string option \<Rightarrow> string option"

text \<open>
  The scanner's options after the constructor has applied its defaults, with the two
  facts it reads from the metadata: which properties the child doctype has
  (\<open>frappe.meta.has_field\<close>) and whether the form's doctype has
  \<open>last_scanned_warehouse\<close>.  The row a fresh \<open>frappe.model.add_child\<close> returns is
  the framework's; it is a parameter.
\<close>

record cfg =
  barcode_field :: field
  serial_no_field :: field
  batch_no_field :: field
  uom_field :: field
  qty_field :: field
  warehouse_field :: warehouse_opt
  max_qty_field :: "field option"
  dont_allow_new_row :: bool
  prompt_qty :: bool
  success_sound :: bool
  fail_sound :: bool
  has_field :: "field \<Rightarrow> bool"
  has_last_scanned_warehouse :: bool
  new_child :: "frm \<Rightarrow> row"

section \<open>The line matcher\<close>

definition get_warehouse_field :: "cfg \<Rightarrow> frm \<Rightarrow> string option" where
  "get_warehouse_field c f =
     (case warehouse_field c of
        Field_Fun g \<Rightarrow> g (items f) (last_scanned_warehouse f)
      | Field_Name n \<Rightarrow> Some n)"

text \<open>
  The constants \<open>get_row_to_modify_on_scan\<close> computes before it searches; its local
  \<open>warehouse_field\<close> and \<open>warehouse\<close> are \<open>scan_warehouse_field\<close> and
  \<open>scan_warehouse\<close> here.
\<close>

definition is_batch_no_scan :: "cfg \<Rightarrow> scan_data \<Rightarrow> bool" where
  "is_batch_no_scan c d = (truthy (batch_no d) \<and> has_field c (batch_no_field c))"

definition check_max_qty :: "cfg \<Rightarrow> bool" where
  "check_max_qty c = (truthy (max_qty_field c) \<and> has_field c (to_str (max_qty_field c)))"

definition scan_warehouse_field :: "cfg \<Rightarrow> frm \<Rightarrow> string option" where
  "scan_warehouse_field c f =
     (if has_last_scanned_warehouse c then get_warehouse_field c f else None)"

definition has_warehouse_field :: "cfg \<Rightarrow> frm \<Rightarrow> bool" where
  "has_warehouse_field c f =
     (truthy (scan_warehouse_field c f) \<and> has_field c (to_str (scan_warehouse_field c f)))"

definition scan_warehouse :: "cfg \<Rightarrow> frm \<Rightarrow> scan_data \<Rightarrow> string option" where
  "scan_warehouse c f d =
     (if has_warehouse_field c f then js_or (last_scanned_warehouse f) (default_warehouse d)
      else None)"

definition matching_row :: "cfg \<Rightarrow> frm \<Rightarrow> scan_data \<Rightarrow> row \<Rightarrow> bool" where
  "matching_row c f d r =
     (let item_match = (str r ''item_code'' = item_code d);
          batch_match = (\<not> truthy (str r (batch_no_field c)) \<or> str r (batch_no_field c) = batch_no d);
          uom_match = (\<not> truthy (uom d) \<or> str r (uom_field c) = uom d);
          qty_in_limit = (flt (num r (qty_field c)) < flt (num r (to_str (max_qty_field c))));
          item_scanned = truthy_num (num r ''has_item_scanned'');
          warehouse_match =
            (if has_warehouse_field c f \<and> truthy (scan_warehouse c f d)
                \<and> truthy (str r (to_str (scan_warehouse_field c f)))
             then str r (to_str (scan_warehouse_field c f)) = scan_warehouse c f d
             else True)
      in item_match \<and> uom_match \<and> warehouse_match \<and> \<not> item_scanned
         \<and> (\<not> is_batch_no_scan c d \<or> batch_match)
         \<and> (\<not> check_max_qty c \<or> qty_in_limit))"

definition get_row_to_modify_on_scan :: "cfg \<Rightarrow> frm \<Rightarrow> scan_data \<Rightarrow> nat option" where
  "get_row_to_modify_on_scan c f d =
     (case find_row (matching_row c f d) (items f) of
        Some i \<Rightarrow> Some i
      | None \<Rightarrow> find_row (\<lambda>r. \<not> truthy (str r ''item_code'')) (items f))"

section \<open>The line mutator\<close>

text \<open>
  A promise either resolves, rejects, or is left pending.  \<open>reject()\<close> is called without
  a value; the constructor records which call site rejected.
\<close>

datatype reject = Cannot_Find | Row_Limit_Exceeded | Duplicate_Serial

datatype outcome = Resolved "nat option" | Rejected reject | Pending

definition emit :: "event \<Rightarrow> frm \<Rightarrow> frm" where
  "emit e f = f\<lparr>trace := trace f @ [e]\<rparr>"

text \<open>
  \<open>frappe.model.set_value(row.doctype, row.name, field, value)\<close> on a text and on a
  numeric property of the row at position \<open>i\<close>.  The framework assigns
  \<open>doc[key] = value\<close> when the value differs from the one the property holds
  (\<open>doc[key] !== value\<close>): a value replaces what the property held; \<open>undefined\<close>
  written to a property that the row has leaves the property in the row, holding
  \<open>undefined\<close>, and written to a property that the row lacks it adds nothing.  The
  handlers other scripts attach to a field change are outside this model.
\<close>

definition put_str :: "field \<Rightarrow> string option \<Rightarrow> row \<Rightarrow> row" where
  "put_str k v r =
     r\<lparr>str := (str r)(k := v),
       void := (void r)(k := (if v = None \<and> has_key r k then Some Undefined else None))\<rparr>"

definition put_num :: "field \<Rightarrow> rat option \<Rightarrow> row \<Rightarrow> row" where
  "put_num k v r =
     r\<lparr>num := (num r)(k := v),
       void := (void r)(k := (if v = None \<and> has_key r k then Some Undefined else None))\<rparr>"

definition set_str :: "nat \<Rightarrow> field \<Rightarrow> string option \<Rightarrow> frm \<Rightarrow> frm" where
  "set_str i k v f =
     emit (Set_Value i k) (f\<lparr>items := (items f)[i := put_str k v (items f ! i)]\<rparr>)"

definition set_num :: "nat \<Rightarrow> field \<Rightarrow> rat option \<Rightarrow> frm \<Rightarrow> frm" where
  "set_num i k v f =
     emit (Set_Value i k) (f\<lparr>items := (items f)[i := put_num k v (items f ! i)]\<rparr>)"

definition show_alert :: "alert \<Rightarrow> string \<Rightarrow> frm \<Rightarrow> frm" where
  "show_alert msg indicator f = emit (Show_Alert msg indicator) f"

definition clean_up :: "frm \<Rightarrow> frm" where
  "clean_up f = emit Clean_Up (f\<lparr>scan_value := Some []\<rparr>)"

definition play_success_sound :: "cfg \<Rightarrow> frm \<Rightarrow> frm" where
  "play_success_sound c f = (if success_sound c then emit Play_Success f else f)"

definition play_fail_sound :: "cfg \<Rightarrow> frm \<Rightarrow> frm" where
  "play_fail_sound c f = (if fail_sound c then emit Play_Fail f else f)"

definition set_selector_trigger_flag :: "scan_data \<Rightarrow> frm \<Rightarrow> frm" where
  "set_selector_trigger_flag d f =
     (let require_selecting_batch = (truthy_flag (has_batch_no d) \<and> \<not> truthy (batch_no d));
          require_selecting_serial = (truthy_flag (has_serial_no d) \<and> \<not> truthy (serial_no d))
      in if \<not> (require_selecting_batch \<or> require_selecting_serial)
         then emit Hide_Selector (f\<lparr>hide_serial_batch_dialog := True\<rparr>)
         else f)"

definition revert_selector_flag :: "frm \<Rightarrow> frm" where
  "revert_selector_flag f =
     emit Revert_Flags
       (f\<lparr>hide_serial_batch_dialog := False, trigger_from_barcode_scanner := False\<rparr>)"

definition set_barcode_uom :: "cfg \<Rightarrow> nat \<Rightarrow> string option \<Rightarrow> frm \<Rightarrow> frm" where
  "set_barcode_uom c i u f =
     (if truthy u \<and> has_field c (uom_field c) then set_str i (uom_field c) u f else f)"

definition set_serial_no :: "cfg \<Rightarrow> nat \<Rightarrow> string option \<Rightarrow> frm \<Rightarrow> frm" where
  "set_serial_no c i sn f =
     (if truthy sn \<and> has_field c (serial_no_field c)
      then let existing_serial_nos = str (items f ! i) (serial_no_field c);
               new_serial_nos =
                 (if truthy existing_serial_nos
                  then Some (to_str existing_serial_nos @ [CHR 0x0A] @ to_str sn)
                  else sn)
           in set_str i (serial_no_field c) new_serial_nos f
      else f)"

definition set_batch_no :: "cfg \<Rightarrow> nat \<Rightarrow> string option \<Rightarrow> frm \<Rightarrow> frm" where
  "set_batch_no c i b f =
     (if truthy b \<and> has_field c (batch_no_field c) then set_str i (batch_no_field c) b f else f)"

definition set_barcode :: "cfg \<Rightarrow> nat \<Rightarrow> string option \<Rightarrow> frm \<Rightarrow> frm" where
  "set_barcode c i b f =
     (if truthy b \<and> has_field c (barcode_field c) then set_str i (barcode_field c) b f else f)"

definition set_warehouse :: "cfg \<Rightarrow> nat \<Rightarrow> frm \<Rightarrow> frm" where
  "set_warehouse c i f =
     (if \<not> has_last_scanned_warehouse c then f
      else if \<not> truthy (last_scanned_warehouse f) then f
      else if \<not> truthy (get_warehouse_field c f)
              \<or> \<not> has_field c (to_str (get_warehouse_field c f)) then f
      else set_str i (to_str (get_warehouse_field c f)) (last_scanned_warehouse f) f)"

definition show_scan_message :: "rat option \<Rightarrow> bool \<Rightarrow> rat \<Rightarrow> frm \<Rightarrow> frm" where
  "show_scan_message idx is_existing_row qty f =
     (if is_existing_row then show_alert (Qty_Increased idx qty) ''green'' f
      else show_alert (Item_Added idx) ''green'' f)"

text \<open>The test of \<open>is_duplicate_serial_no\<close>:
  \<open>row[this.serial_no_field]?.includes(serial_no)\<close>.\<close>

definition is_duplicate :: "cfg \<Rightarrow> row \<Rightarrow> string option \<Rightarrow> bool" where
  "is_duplicate c r sn =
     (case str r (serial_no_field c) of
        None \<Rightarrow> False
      | Some s \<Rightarrow> js_includes s (to_str sn))"

definition is_duplicate_serial_no :: "cfg \<Rightarrow> nat \<Rightarrow> string option \<Rightarrow> frm \<Rightarrow> bool \<times> frm" where
  "is_duplicate_serial_no c i sn f =
     (if is_duplicate c (items f ! i) sn
      then (True, show_alert (Serial_No_Already_Added sn) ''orange'' f)
      else (False, f))"

text \<open>
  \<open>increment\<close> inside \<open>set_item\<close>: one \<open>set_value\<close> with the object
  \<open>{item_code, use_serial_batch_fields: 1, [qty_field]: Number(row[qty_field] || 0) + Number(value)}\<close>.
\<close>

definition increment :: "cfg \<Rightarrow> nat \<Rightarrow> string option \<Rightarrow> rat \<Rightarrow> frm \<Rightarrow> frm" where
  "increment c i code v f =
     (let q = flt (num (items f ! i) (qty_field c)) + v;
          f1 = f\<lparr>trigger_from_barcode_scanner := True\<rparr>;
          f2 = set_str i ''item_code'' code f1;
          f3 = set_num i ''use_serial_batch_fields'' (Some 1) f2
      in set_num i (qty_field c) (Some q) f3)"

definition prepare_item_for_scan :: "cfg \<Rightarrow> nat \<Rightarrow> scan_data \<Rightarrow> frm \<Rightarrow> frm" where
  "prepare_item_for_scan c i d f =
     (let r = items f ! i;
          dlg = \<lparr> d_row = i, d_item_code = item_code d,
                  d_qty = (if truthy_num (num r (qty_field c)) then num r (qty_field c) else Some 1),
                  d_scanned_qty = Some 1,
                  d_batch_no = (if truthy (batch_no d) then batch_no d else None),
                  d_serial_no = (if truthy (serial_no d) then serial_no d else None),
                  d_barcode = (if truthy (barcode d) then barcode d else None) \<rparr>
      in emit (Dialog_Shown i) (f\<lparr>dialog := Some dlg\<rparr>))"

text \<open>
  \<open>set_item\<close> resolves with the quantity it added.  In prompt mode the operator's answer
  is \<open>answer\<close> (\<open>None\<close>: the prompt is dismissed and the promise stays pending); when
  the form has items the dialog is opened and nothing resolves the promise.
\<close>

definition set_item :: "cfg \<Rightarrow> nat \<Rightarrow> scan_data \<Rightarrow> rat option \<Rightarrow> frm \<Rightarrow> rat option \<times> frm" where
  "set_item c i d answer f =
     (if prompt_qty c then
        (case answer of
           None \<Rightarrow> (None, emit Prompt_Shown f)
         | Some v \<Rightarrow> (Some v, increment c i (item_code d) v (emit Prompt_Shown f)))
      else if has_items f then (None, prepare_item_for_scan c i d f)
      else (Some 1, increment c i (item_code d) 1 f))"

text \<open>The serial task list of \<open>update_table\<close>, for the row at position \<open>i\<close>.\<close>

definition run_serially :: "cfg \<Rightarrow> nat \<Rightarrow> bool \<Rightarrow> scan_data \<Rightarrow> rat option \<Rightarrow> frm \<Rightarrow> outcome \<times> frm" where
  "run_serially c i is_new_row d answer f =
     (let f1 = set_selector_trigger_flag d f;
          f2 = set_barcode_uom c i (uom d) f1;
          f3 = set_serial_no c i (serial_no d) f2;
          f4 = set_batch_no c i (batch_no d) f3;
          f5 = set_barcode c i (barcode d) f4;
          f6 = set_warehouse c i f5
      in case set_item c i d answer f6 of
           (None, f7) \<Rightarrow> (Pending, f7)
         | (Some qty, f7) \<Rightarrow>
             (let f8 = show_scan_message (num (items f7 ! i) ''idx'') (\<not> is_new_row) qty f7;
                  f9 = clean_up f8;
                  f10 = revert_selector_flag f9
              in (Resolved (Some i), f10)))"

text \<open>\<open>frappe.model.add_child\<close> appends the framework's new row; the row-add triggers of
  other scripts are outside this model.\<close>

definition add_child :: "cfg \<Rightarrow> frm \<Rightarrow> frm" where
  "add_child c f = emit (Add_Child (length (items f))) (f\<lparr>items := items f @ [new_child c f]\<rparr>)"

definition update_table :: "cfg \<Rightarrow> rat option \<Rightarrow> frm \<Rightarrow> scan_data \<Rightarrow> outcome \<times> frm" where
  "update_table c answer f d =
     (let f0 = f\<lparr>trigger_from_barcode_scanner := True\<rparr>;
          row = get_row_to_modify_on_scan c f0 d;
          is_new_row = (case row of None \<Rightarrow> True
                        | Some i \<Rightarrow> \<not> truthy (str (items f0 ! i) ''item_code''))
      in if row = None \<and> dont_allow_new_row c
         then (Rejected Row_Limit_Exceeded,
               clean_up (show_alert (Maximum_Quantity_Scanned (item_code d)) ''red'' f0))
         else
           (let i = (case row of None \<Rightarrow> length (items f0) | Some j \<Rightarrow> j);
                f1 = (case row of None \<Rightarrow> (add_child c f0)\<lparr>has_items := False\<rparr> | Some j \<Rightarrow> f0)
            in case is_duplicate_serial_no c i (serial_no d) f1 of
                 (True, f2) \<Rightarrow> (Rejected Duplicate_Serial, clean_up f2)
               | (False, f2) \<Rightarrow> run_serially c i is_new_row d answer f2))"

section \<open>The scan entry point and the warehouse context\<close>

definition handle_warehouse_scan :: "scan_data \<Rightarrow> frm \<Rightarrow> frm" where
  "handle_warehouse_scan d f =
     show_alert (Warehouse_Will_Be_Set (warehouse d)) ''green''
       (f\<lparr>last_scanned_warehouse_initialized := True,
          last_scanned_warehouse := warehouse d\<rparr>)"

definition clear_warehouse_context :: "frm \<Rightarrow> frm" where
  "clear_warehouse_context f =
     show_alert Warehouse_Cleared ''blue'' (f\<lparr>last_scanned_warehouse := None\<rparr>)"

text \<open>
  The scan API is the server's: \<open>api\<close> gives, for a search value, the reply
  \<open>r.message\<close> (\<open>None\<close> when the reply has no message), or \<open>No_Reply\<close> when the call
  fails and the callback never runs.  An object is empty when it has no key.
\<close>

datatype reply = No_Reply | Message "scan_data option"

definition is_empty_object :: "scan_data \<Rightarrow> bool" where
  "is_empty_object d =
     (item_code d = None \<and> barcode d = None \<and> batch_no d = None \<and> serial_no d = None
      \<and> uom d = None \<and> default_warehouse d = None \<and> warehouse d = None
      \<and> has_batch_no d = None \<and> has_serial_no d = None)"

text \<open>The branch of \<open>process_scan\<close> for a reply that names nothing it can use.\<close>

definition cannot_find :: "cfg \<Rightarrow> frm \<Rightarrow> outcome \<times> frm" where
  "cannot_find c f =
     (Rejected Cannot_Find,
      play_fail_sound c (clean_up (show_alert
        (if has_last_scanned_warehouse c then Cannot_Find_Item_Or_Warehouse else Cannot_Find_Item)
        ''red'' f)))"

definition process_scan :: "cfg \<Rightarrow> (string \<Rightarrow> reply) \<Rightarrow> rat option \<Rightarrow> frm \<Rightarrow> outcome \<times> frm" where
  "process_scan c api answer f =
     (let input = scan_value f;
          f0 = f\<lparr>scan_value := Some []\<rparr>
      in if \<not> truthy input then (Pending, f0)
         else
           (let f1 = emit (Api_Call (to_str input)) f0
            in case api (to_str input) of
                 No_Reply \<Rightarrow> (Pending, f1)
               | Message None \<Rightarrow> cannot_find c f1
               | Message (Some d) \<Rightarrow>
                   (if is_empty_object d
                       \<or> (truthy (warehouse d) \<and> \<not> has_last_scanned_warehouse c)
                    then cannot_find c f1
                    else if truthy (warehouse d)
                    then (Resolved None, play_success_sound c (handle_warehouse_scan d f1))
                    else
                      (case update_table c answer f1 d of
                         (Resolved r, f2) \<Rightarrow> (Resolved r, play_success_sound c f2)
                       | (Rejected e, f2) \<Rightarrow> (Rejected e, play_fail_sound c f2)
                       | (Pending, f2) \<Rightarrow> (Pending, f2)))))"

text \<open>
  The primary action of the dialog (\<open>Update\<close>), with the values the dialog holds when the
  operator confirms, and \<open>add_child_for_remaining_qty\<close>.  The action sets the item's
  values and hides the dialog at once; the task list it has started runs after that.
\<close>

definition ignore_fields :: "field list" where
  "ignore_fields =
     [''name'', ''idx'', ''batch_no'', ''barcode'', ''received_qty'', ''serial_no'',
      ''has_item_scanned'']"

text \<open>
  The loop \<open>for (let key in prev_row)\<close>: every property the previous row has, whatever
  it holds, is assigned to the new row unless its name is in \<open>ignore_fields\<close>.  The new
  row keeps what the framework gave it for the other names.
\<close>

definition copy_row :: "row \<Rightarrow> row \<Rightarrow> row" where
  "copy_row prev_row r =
     r\<lparr>str := (\<lambda>k. if has_key prev_row k \<and> k \<notin> set ignore_fields then str prev_row k
                   else str r k),
       num := (\<lambda>k. if has_key prev_row k \<and> k \<notin> set ignore_fields then num prev_row k
                   else num r k),
       void := (\<lambda>k. if has_key prev_row k \<and> k \<notin> set ignore_fields then void prev_row k
                    else void r k)\<rparr>"

text \<open>
  \<open>row[key] = x\<close> for a number \<open>x\<close>, and for \<open>NaN\<close>.
\<close>

definition assign_num :: "field \<Rightarrow> rat \<Rightarrow> row \<Rightarrow> row" where
  "assign_num k x r = r\<lparr>num := (num r)(k \<mapsto> x), void := (void r)(k := None)\<rparr>"

definition assign_nan :: "field \<Rightarrow> row \<Rightarrow> row" where
  "assign_nan k r = r\<lparr>num := (num r)(k := None), void := (void r)(k \<mapsto> NaN)\<rparr>"

text \<open>
  \<open>x * row[key]\<close> for a number \<open>x\<close> and a numeric property: the product with the
  number the property holds; \<open>null\<close> converts to \<open>0\<close>; a missing property,
  \<open>undefined\<close> and \<open>NaN\<close> give \<open>NaN\<close>, which is \<open>None\<close> here.  The product is
  exact (JavaScript rounds it to a double).  The model does not convert a text to a
  number: the property is a Float of the schema.
\<close>

definition times :: "rat \<Rightarrow> row \<Rightarrow> field \<Rightarrow> rat option" where
  "times x r k =
     (case num r k of
        Some y \<Rightarrow> Some (x * y)
      | None \<Rightarrow> (case void r k of Some Null \<Rightarrow> Some 0 | _ \<Rightarrow> None))"

text \<open>
  \<open>add_child_for_remaining_qty(prev_row)\<close> for the row at position \<open>prev\<close>.  The
  \<open>item_code\<close> trigger it fires on the new row at the end runs the handlers of other
  scripts, which are outside this model.
\<close>

definition add_child_for_remaining_qty :: "cfg \<Rightarrow> nat \<Rightarrow> frm \<Rightarrow> frm" where
  "add_child_for_remaining_qty c prev f =
     (if truthy_num (remaining_qty f) \<and> flt (remaining_qty f) > 0
      then let row = length (items f);
               f1 = add_child c f;
               r1 = copy_row (items f1 ! prev) (items f1 ! row);
               r2 = assign_num (qty_field c) (flt (remaining_qty f)) r1;
               r3 = (if qty_field c = ''qty'' \<and> has_field c ''stock_qty''
                     then (case times (flt (remaining_qty f)) r2 ''conversion_factor'' of
                             Some x \<Rightarrow> assign_num ''stock_qty'' x r2
                           | None \<Rightarrow> assign_nan ''stock_qty'' r2)
                     else r2)
           in f1\<lparr>items := (items f1)[row := r3]\<rparr>
      else f)"

definition primary_action :: "cfg \<Rightarrow> dialog \<Rightarrow> frm \<Rightarrow> frm" where
  "primary_action c dlg f =
     (let i = d_row dlg;
          f1 = f\<lparr>remaining_qty := Some (flt (d_qty dlg) - flt (d_scanned_qty dlg))\<rparr>;
          f2 = set_str i ''item_code'' (d_item_code dlg) f1;
          f3 = set_num i (qty_field c) (d_scanned_qty dlg) f2;
          f4 = emit Dialog_Hidden (set_num i ''has_item_scanned'' (Some 1) f3);
          f5 = set_batch_no c i (d_batch_no dlg) f4;
          f6 = set_barcode c i (d_barcode dlg) f5;
          f7 = set_serial_no c i (d_serial_no dlg) f6;
          f8 = add_child_for_remaining_qty c i f7
      in clean_up f8)"

section \<open>Point of sale: the stock availability check\<close>

text \<open>
  The reply of \<open>get_stock_availability\<close> is the array
  \<open>[available_qty, is_stock_item, is_negative_stock_allowed]\<close>.
\<close>

type_synonym availability = "rat \<times> bool \<times> bool"

text \<open>
  The controller: the rows of the invoice (\<open>frm.doc.items\<close>), \<open>item_stock_map\<close>, the
  remote calls made so far, and whether the page is frozen.
\<close>

record pos =
  pos_items :: "row list"
  item_stock_map :: "string \<rightharpoonup> (string \<rightharpoonup> availability)"
  remote_calls :: "(string option \<times> string option) list"
  frozen :: bool

datatype pos_error = Type_Error | Not_Available | Not_Enough

text \<open>\<open>server\<close> is what the availability service answers at the time of the call.\<close>

definition get_available_stock ::
    "(string option \<Rightarrow> string option \<Rightarrow> availability) \<Rightarrow> string option \<Rightarrow> string option
      \<Rightarrow> pos \<Rightarrow> availability \<times> pos" where
  "get_available_stock server code wh p =
     (let res = server code wh;
          p1 = p\<lparr>remote_calls := remote_calls p @ [(code, wh)]\<rparr>;
          inner = (case item_stock_map p1 (to_str code) of None \<Rightarrow> Map.empty | Some m \<Rightarrow> m)
      in (res, p1\<lparr>item_stock_map := (item_stock_map p1)(to_str code \<mapsto> inner(to_str wh \<mapsto> res))\<rparr>))"

text \<open>
  \<open>frappe.model.clear_doc\<close> is the framework's: it deletes the document of that name and
  takes it out of its parent's table.
\<close>

definition clear_doc :: "string option \<Rightarrow> pos \<Rightarrow> pos" where
  "clear_doc n p =
     (case n of None \<Rightarrow> p
      | Some _ \<Rightarrow> p\<lparr>pos_items := filter (\<lambda>r. str r ''name'' \<noteq> n) (pos_items p)\<rparr>)"

text \<open>
  \<open>frappe.throw\<close> raises; the messages are built with \<open>.bold()\<close> on the row's
  \<open>stock_uom\<close> and \<open>item_code\<close> and on the warehouse before any test, which raises a
  \<open>TypeError\<close> when one of them is missing.
\<close>

definition check_stock_availability ::
    "(string option \<Rightarrow> string option \<Rightarrow> availability) \<Rightarrow> row \<Rightarrow> rat \<Rightarrow> string option
      \<Rightarrow> pos \<Rightarrow> (pos_error + unit) \<times> pos" where
  "check_stock_availability server item_row qty_needed wh p =
     (case get_available_stock server (str item_row ''item_code'') wh p of
        ((available_qty, is_stock_item, is_negative_stock_allowed), p1) \<Rightarrow>
          (let p2 = p1\<lparr>frozen := False\<rparr>
           in if str item_row ''stock_uom'' = None \<or> str item_row ''item_code'' = None \<or> wh = None
              then (Inl Type_Error, p2)
              else if is_negative_stock_allowed then (Inr (), p2)
              else if \<not> (available_qty > 0) then
                (if is_stock_item then (Inl Not_Available, clear_doc (str item_row ''name'') p2)
                 else (Inr (), p2))
              else if is_stock_item \<and> available_qty < qty_needed then (Inl Not_Enough, p2)
              else (Inr (), p2\<lparr>frozen := True\<rparr>)))"

section \<open>The specification's predicates\<close>

text \<open>
  The six predicates of the line matcher as the specification lists them, for a row \<open>r\<close>
  and the warehouse \<open>w\<close> that the warehouse context carries.  The warehouse context is
  active when the form has \<open>last_scanned_warehouse\<close> and the child table has the
  configured warehouse property.
\<close>

definition the_six_predicates :: "cfg \<Rightarrow> frm \<Rightarrow> scan_data \<Rightarrow> string option \<Rightarrow> row \<Rightarrow> bool" where
  "the_six_predicates c f d w r =
     (str r ''item_code'' = item_code d
      \<and> (truthy (batch_no d) \<and> has_field c (batch_no_field c) \<longrightarrow>
           \<not> truthy (str r (batch_no_field c)) \<or> str r (batch_no_field c) = batch_no d)
      \<and> (truthy (uom d) \<longrightarrow> str r (uom_field c) = uom d)
      \<and> (check_max_qty c \<longrightarrow>
           flt (num r (qty_field c)) < flt (num r (to_str (max_qty_field c))))
      \<and> \<not> truthy_num (num r ''has_item_scanned'')
      \<and> (has_warehouse_field c f \<and> truthy (str r (to_str (get_warehouse_field c f))) \<and> truthy w \<longrightarrow>
           str r (to_str (get_warehouse_field c f)) = w))"

text \<open>
  A row is eligible when it satisfies the six predicates for the last scanned warehouse
  or, when there is none, for the default warehouse the scan carries.
\<close>

definition eligible :: "cfg \<Rightarrow> frm \<Rightarrow> scan_data \<Rightarrow> row \<Rightarrow> bool" where
  "eligible c f d r =
     the_six_predicates c f d (js_or (last_scanned_warehouse f) (default_warehouse d)) r"

definition placeholder :: "row \<Rightarrow> bool" where
  "placeholder r = (\<not> truthy (str r ''item_code''))"

section \<open>The fixed sequence of writes\<close>

text \<open>
  The events the task list of \<open>update_table\<close> is expected to produce for the row at
  \<open>i\<close>, in their order: the selector flag, then the writes of UOM, serial number, batch
  number and barcode, each present when the scan carries the value and the table has the
  property, then the warehouse write \<open>w\<close>; then the three properties that the quantity
  step sets with one \<open>set_value\<close>.
\<close>

definition optional :: "bool \<Rightarrow> event \<Rightarrow> event list" where
  "optional b e = (if b then [e] else [])"

definition field_writes :: "cfg \<Rightarrow> scan_data \<Rightarrow> nat \<Rightarrow> event list \<Rightarrow> event list" where
  "field_writes c d i w =
     optional (\<not> (truthy_flag (has_batch_no d) \<and> \<not> truthy (batch_no d)
                  \<or> truthy_flag (has_serial_no d) \<and> \<not> truthy (serial_no d))) Hide_Selector
     @ optional (truthy (uom d) \<and> has_field c (uom_field c)) (Set_Value i (uom_field c))
     @ optional (truthy (serial_no d) \<and> has_field c (serial_no_field c)) (Set_Value i (serial_no_field c))
     @ optional (truthy (batch_no d) \<and> has_field c (batch_no_field c)) (Set_Value i (batch_no_field c))
     @ optional (truthy (barcode d) \<and> has_field c (barcode_field c)) (Set_Value i (barcode_field c))
     @ w"

definition quantity_writes :: "cfg \<Rightarrow> nat \<Rightarrow> event list" where
  "quantity_writes c i =
     [Set_Value i ''item_code'', Set_Value i ''use_serial_batch_fields'', Set_Value i (qty_field c)]"

text \<open>The warehouse write is one write to the row, made only when the form has
  \<open>last_scanned_warehouse\<close> and a warehouse has been scanned, or no write.\<close>

definition warehouse_write :: "cfg \<Rightarrow> frm \<Rightarrow> nat \<Rightarrow> event list \<Rightarrow> bool" where
  "warehouse_write c f i w =
     (w = [] \<or> (\<exists>k. w = [Set_Value i k] \<and> has_last_scanned_warehouse c
                  \<and> truthy (last_scanned_warehouse f)))"

text \<open>
  What a scan adds to the trace \<open>before\<close>, by its outcome.  Resolved: the field writes,
  the prompt in prompt mode, the quantity writes, the message, the clean-up and the
  reverted flags, and both flags are off.  Pending: the field writes and then the prompt
  (left unanswered) or the dialog, and no write after it.  Rejected: an alert and the
  clean-up, and no write.
\<close>

definition follows_sequence ::
    "cfg \<Rightarrow> scan_data \<Rightarrow> rat option \<Rightarrow> bool \<Rightarrow> nat \<Rightarrow> event list \<Rightarrow> event list
      \<Rightarrow> outcome \<times> frm \<Rightarrow> bool" where
  "follows_sequence c d answer dialog_mode i w before res =
     (case res of
        (Resolved r, f') \<Rightarrow>
          r = Some i \<and> (if prompt_qty c then answer \<noteq> None else \<not> dialog_mode)
          \<and> (\<exists>m. trace f' = before @ field_writes c d i w @ optional (prompt_qty c) Prompt_Shown
                     @ quantity_writes c i @ [Show_Alert m ''green'', Clean_Up, Revert_Flags])
          \<and> \<not> hide_serial_batch_dialog f' \<and> \<not> trigger_from_barcode_scanner f'
      | (Pending, f') \<Rightarrow>
          (if prompt_qty c then answer = None else dialog_mode)
          \<and> (\<exists>rest. trace f' = before @ field_writes c d i w
                  @ [if prompt_qty c then Prompt_Shown else Dialog_Shown i] @ rest
                \<and> set rest \<subseteq> {Clean_Up, Revert_Flags})
      | (Rejected e, f') \<Rightarrow>
          (\<exists>m k. trace f' = before @ [Show_Alert m k, Clean_Up]))"

text \<open>The position of the row a scan works on: the matcher's row, or the position at
  which \<open>add_child\<close> appends the new one.\<close>

definition scan_row :: "cfg \<Rightarrow> frm \<Rightarrow> scan_data \<Rightarrow> nat" where
  "scan_row c f d =
     (case get_row_to_modify_on_scan c f d of None \<Rightarrow> length (items f) | Some j \<Rightarrow> j)"

text \<open>The state in which \<open>run_serially\<close> calls \<open>set_item\<close>.\<close>

definition before_set_item :: "cfg \<Rightarrow> nat \<Rightarrow> scan_data \<Rightarrow> frm \<Rightarrow> frm" where
  "before_set_item c i d f =
     set_warehouse c i (set_barcode c i (barcode d) (set_batch_no c i (batch_no d)
       (set_serial_no c i (serial_no d) (set_barcode_uom c i (uom d)
         (set_selector_trigger_flag d f)))))"

section \<open>Serial lists and property names\<close>

text \<open>The serial list of a row: the lines of its serial-number property, as
  \<open>validate_duplicate_serial_no\<close> reads them (\<open>v ? v.split("\n") : []\<close>).\<close>

definition serial_list :: "cfg \<Rightarrow> row \<Rightarrow> string list" where
  "serial_list c r =
     (if truthy (str r (serial_no_field c)) then split_nl (to_str (str r (serial_no_field c)))
      else [])"

text \<open>The options name the serial-number property apart from the other text properties
  that a scan writes after it.\<close>

definition serial_field_apart :: "cfg \<Rightarrow> bool" where
  "serial_field_apart c =
     (serial_no_field c \<notin> {batch_no_field c, barcode_field c, ''item_code''}
      \<and> (case warehouse_field c of
            Field_Name n \<Rightarrow> n \<noteq> serial_no_field c
          | Field_Fun g \<Rightarrow> (\<forall>rs l. g rs l \<noteq> Some (serial_no_field c))))"

text \<open>The warehouse property of the rows is \<open>k\<close>, whatever the document holds.\<close>

definition warehouse_field_is :: "cfg \<Rightarrow> field \<Rightarrow> bool" where
  "warehouse_field_is c k =
     (case warehouse_field c of
        Field_Name n \<Rightarrow> n = k
      | Field_Fun g \<Rightarrow> (\<forall>rs l. g rs l = Some k))"

text \<open>The snapshot that \<open>item_stock_map\<close> holds for an item code and a warehouse.\<close>

definition cached :: "pos \<Rightarrow> string \<Rightarrow> string \<Rightarrow> availability option" where
  "cached p code wh = (case item_stock_map p code of None \<Rightarrow> None | Some m \<Rightarrow> m wh)"

text \<open>The state in which the primary action of the dialog calls
  \<open>add_child_for_remaining_qty\<close>: the source row has been written.\<close>

definition dialog_written :: "cfg \<Rightarrow> dialog \<Rightarrow> frm \<Rightarrow> frm" where
  "dialog_written c dlg f =
     (let i = d_row dlg;
          f1 = f\<lparr>remaining_qty := Some (flt (d_qty dlg) - flt (d_scanned_qty dlg))\<rparr>;
          f2 = set_str i ''item_code'' (d_item_code dlg) f1;
          f3 = set_num i (qty_field c) (d_scanned_qty dlg) f2;
          f4 = emit Dialog_Hidden (set_num i ''has_item_scanned'' (Some 1) f3);
          f5 = set_batch_no c i (d_batch_no dlg) f4;
          f6 = set_barcode c i (d_barcode dlg) f5
      in set_serial_no c i (d_serial_no dlg) f6)"

text \<open>The row that \<open>add_child_for_remaining_qty\<close> leaves at the end of the table for
  the remaining quantity \<open>x\<close>, from the previous row and the row the framework added.\<close>

definition remaining_row :: "cfg \<Rightarrow> rat \<Rightarrow> row \<Rightarrow> row \<Rightarrow> row" where
  "remaining_row c x prev_row r =
     (let r2 = assign_num (qty_field c) x (copy_row prev_row r)
      in if qty_field c = ''qty'' \<and> has_field c ''stock_qty''
         then (case times x r2 ''conversion_factor'' of
                 Some y \<Rightarrow> assign_num ''stock_qty'' y r2
               | None \<Rightarrow> assign_nan ''stock_qty'' r2)
         else r2)"

section \<open>Example inputs\<close>

definition mk_row :: "(field \<times> string) list \<Rightarrow> (field \<times> rat) list \<Rightarrow> row" where
  "mk_row ss ns = \<lparr>str = map_of ss, num = map_of ns, void = Map.empty\<rparr>"

text \<open>The options the constructor chooses when the caller gives none, on a stock table.\<close>

definition scanner_defaults :: cfg where
  "scanner_defaults =
     \<lparr> barcode_field = ''barcode'', serial_no_field = ''serial_no'', batch_no_field = ''batch_no'',
       uom_field = ''uom'', qty_field = ''qty'', warehouse_field = Field_Name ''warehouse'',
       max_qty_field = None, dont_allow_new_row = False, prompt_qty = False,
       success_sound = False, fail_sound = False,
       has_field = (\<lambda>k. k \<in> set [''item_code'', ''barcode'', ''serial_no'', ''batch_no'', ''uom'',
                                   ''qty'', ''picked_qty'', ''warehouse'', ''stock_qty'',
                                   ''conversion_factor'']),
       has_last_scanned_warehouse = True,
       new_child = (\<lambda>f. mk_row [(''name'', ''new-item'')] [(''idx'', of_nat (length (items f)) + 1)]) \<rparr>"

text \<open>A pick list: scans fill \<open>picked_qty\<close> up to \<open>qty\<close>, and no row may be added.\<close>

definition pick_list_options :: cfg where
  "pick_list_options =
     scanner_defaults\<lparr>qty_field := ''picked_qty'', max_qty_field := Some ''qty'',
                      dont_allow_new_row := True\<rparr>"

definition empty_form :: frm where
  "empty_form =
     \<lparr> items = [], last_scanned_warehouse = None, has_items = False, scan_value = None,
       hide_serial_batch_dialog = False, trigger_from_barcode_scanner = False,
       last_scanned_warehouse_initialized = False, dialog = None, remaining_qty = None,
       trace = [] \<rparr>"

definition scan_of_item :: "string \<Rightarrow> scan_data" where
  "scan_of_item code =
     \<lparr> item_code = Some code, barcode = None, batch_no = None, serial_no = None, uom = None,
       default_warehouse = None, warehouse = None, has_batch_no = None, has_serial_no = None \<rparr>"

text \<open>One row of item A in warehouse W2; a scan of item A whose default warehouse is W1.\<close>

definition warehouse_form :: frm where
  "warehouse_form =
     empty_form\<lparr>items := [mk_row [(''item_code'', ''A''), (''warehouse'', ''W2'')] [(''qty'', 1)]]\<rparr>"

definition warehouse_scan :: scan_data where
  "warehouse_scan = (scan_of_item ''A'')\<lparr>default_warehouse := Some ''W1''\<rparr>"

text \<open>Two rows of item A, the first of batch LOT7, the second without batch; a scan of
  item A, batch LOT12.\<close>

definition batch_form :: frm where
  "batch_form =
     empty_form\<lparr>items :=
       [mk_row [(''item_code'', ''A''), (''uom'', ''Nos''), (''batch_no'', ''LOT7'')] [(''qty'', 1)],
        mk_row [(''item_code'', ''A''), (''uom'', ''Nos'')] [(''qty'', 1)]]\<rparr>"

definition batch_scan :: scan_data where
  "batch_scan = (scan_of_item ''A'')\<lparr>batch_no := Some ''LOT12''\<rparr>"

text \<open>One row: 2 of item A.\<close>

definition one_row_form :: frm where
  "one_row_form =
     empty_form\<lparr>items := [mk_row [(''name'', ''row-1''), (''item_code'', ''A'')]
                                 [(''idx'', 1), (''qty'', 2), (''max_qty'', 5)]]\<rparr>"

text \<open>A scan of a barcode of item A.\<close>

definition barcode_scan :: scan_data where
  "barcode_scan = (scan_of_item ''A'')\<lparr>barcode := Some ''123''\<rparr>"

text \<open>The same form when \<open>frm.has_items\<close> is set.\<close>

definition dialog_form :: frm where
  "dialog_form = one_row_form\<lparr>has_items := True\<rparr>"

text \<open>A scan of the serial number \<open>s\<close> of item A.\<close>

definition serial_scan :: "string \<Rightarrow> scan_data" where
  "serial_scan s = (scan_of_item ''A'')\<lparr>serial_no := Some s, has_serial_no := Some True\<rparr>"

text \<open>One row of item A that holds the serial number S12.\<close>

definition serial_form :: frm where
  "serial_form =
     empty_form\<lparr>items := [mk_row [(''name'', ''row-1''), (''item_code'', ''A''), (''serial_no'', ''S12'')]
                                 [(''idx'', 1), (''qty'', 1)]]\<rparr>"

text \<open>A pick-list row: 4 of item B to pick, 4 picked.\<close>

definition capped_form :: frm where
  "capped_form =
     empty_form\<lparr>items := [mk_row [(''name'', ''row-1''), (''item_code'', ''B'')]
                                 [(''idx'', 1), (''picked_qty'', 4), (''qty'', 4)]]\<rparr>"

text \<open>The reply to the scan of a warehouse.\<close>

definition warehouse_reply :: scan_data where
  "warehouse_reply =
     \<lparr> item_code = None, barcode = None, batch_no = None, serial_no = None, uom = None,
       default_warehouse = None, warehouse = Some ''Stores'', has_batch_no = None,
       has_serial_no = None \<rparr>"

text \<open>The form with \<open>input\<close> in the scan field.\<close>

definition scanned :: "string \<Rightarrow> frm \<Rightarrow> frm" where
  "scanned input f = f\<lparr>scan_value := Some input\<rparr>"

text \<open>A form whose doctype has no \<open>last_scanned_warehouse\<close>.\<close>

definition no_warehouse_context :: cfg where
  "no_warehouse_context = scanner_defaults\<lparr>has_last_scanned_warehouse := False\<rparr>"

text \<open>
  A scanner whose batch numbers go to the property \<open>lot_no\<close> of the rows
  (\<open>opts.batch_no_field\<close>), on a table that has it; the framework gives a new row a
  name, the next idx and the cost center Main.
\<close>

definition lot_options :: cfg where
  "lot_options =
     scanner_defaults\<lparr>batch_no_field := ''lot_no'',
       has_field := (\<lambda>k. k \<in> set [''item_code'', ''lot_no'', ''batch_no'', ''barcode'',
                                   ''serial_no'', ''uom'', ''qty'', ''warehouse'', ''stock_qty'',
                                   ''conversion_factor'']),
       new_child := (\<lambda>f. mk_row [(''name'', ''new-item''), (''cost_center'', ''Main'')]
                                  [(''idx'', of_nat (length (items f)) + 1)])\<rparr>"

text \<open>
  One row: 5 of item A, with an earlier batch in \<open>batch_no\<close>, a received quantity and
  a cost center that is \<open>null\<close>; the dialog confirms 2 of the 5, of batch LOT12, with
  the serial number S1 and the barcode 123.
\<close>

definition split_row :: row where
  "split_row =
     (mk_row [(''name'', ''row-1''), (''item_code'', ''A''), (''uom'', ''Nos''),
              (''warehouse'', ''Stores''), (''batch_no'', ''LOT7'')]
             [(''idx'', 1), (''qty'', 5), (''conversion_factor'', 1), (''received_qty'', 1)])
       \<lparr>void := [''cost_center'' \<mapsto> Null]\<rparr>"

definition split_form :: frm where
  "split_form = empty_form\<lparr>items := [split_row], has_items := True\<rparr>"

definition split_dialog :: dialog where
  "split_dialog =
     \<lparr> d_row = 0, d_item_code = Some ''A'', d_qty = Some 5, d_scanned_qty = Some 2,
       d_batch_no = Some ''LOT12'', d_serial_no = Some ''S1'', d_barcode = Some ''123'' \<rparr>"

text \<open>A point-of-sale invoice with two rows, and two answers of the availability
  service: 5 in stock, and none.\<close>

definition cart_row_a :: row where
  "cart_row_a = mk_row [(''name'', ''row-1''), (''item_code'', ''A''), (''stock_uom'', ''Nos'')] [(''qty'', 1)]"

definition cart_row_b :: row where
  "cart_row_b = mk_row [(''name'', ''row-2''), (''item_code'', ''B''), (''stock_uom'', ''Nos'')] [(''qty'', 1)]"

definition cart :: pos where
  "cart =
     \<lparr> pos_items = [cart_row_a, cart_row_b], item_stock_map = Map.empty, remote_calls = [],
       frozen = True \<rparr>"

definition in_stock :: "string option \<Rightarrow> string option \<Rightarrow> availability" where
  "in_stock code wh = (5, True, False)"

definition out_of_stock :: "string option \<Rightarrow> string option \<Rightarrow> availability" where
  "out_of_stock code wh = (0, True, False)"

section \<open>Properties of the line matcher\<close>

lemmas value_simps = truthy_def truthy_num_def truthy_flag_def js_or_def flt_def to_str_def

lemmas example_simps =
  mk_row_def scanner_defaults_def pick_list_options_def empty_form_def scan_of_item_def

lemmas matcher_simps =
  get_row_to_modify_on_scan_def matching_row_def scan_warehouse_def has_warehouse_field_def
  scan_warehouse_field_def get_warehouse_field_def is_batch_no_scan_def check_max_qty_def

lemma find_row_Some_iff:
  "find_row P xs = Some i \<longleftrightarrow> i < length xs \<and> P (xs ! i) \<and> (\<forall>j<i. \<not> P (xs ! j))"
proof (induction xs arbitrary: i)
  case Nil
  then show ?case by simp
next
  case (Cons x xs)
  show ?case
  proof (cases "P x")
    case True
    then show ?thesis by (cases i) auto
  next
    case False
    show ?thesis
    proof (cases i)
      case 0
      with False show ?thesis by simp
    next
      case (Suc k)
      have "(\<forall>j<Suc k. \<not> P ((x # xs) ! j)) \<longleftrightarrow> (\<forall>j<k. \<not> P (xs ! j))"
        using False by (auto simp: less_Suc_eq_0_disj)
      with False Suc Cons.IH [of k] show ?thesis by auto
    qed
  qed
qed

lemma find_row_None_iff: "find_row P xs = None \<longleftrightarrow> (\<forall>x\<in>set xs. \<not> P x)"
  by (induction xs) auto

lemma matching_row_iff: "matching_row c f d = eligible c f d"
  unfolding matching_row_def the_six_predicates_def Let_def scan_warehouse_def eligible_def
    is_batch_no_scan_def has_warehouse_field_def scan_warehouse_field_def fun_eq_iff
  by (auto simp: truthy_def)

lemma get_row_Some_iff:
  "get_row_to_modify_on_scan c f d = Some i \<longleftrightarrow>
     i < length (items f) \<and>
     (eligible c f d (items f ! i) \<and> (\<forall>j<i. \<not> eligible c f d (items f ! j))
      \<or> (\<forall>r\<in>set (items f). \<not> eligible c f d r) \<and> placeholder (items f ! i)
          \<and> (\<forall>j<i. \<not> placeholder (items f ! j)))"
  (is "?L \<longleftrightarrow> ?R")
proof (cases "find_row (eligible c f d) (items f)")
  case None
  then have no: "\<forall>r\<in>set (items f). \<not> eligible c f d r"
    by (simp add: find_row_None_iff)
  have "get_row_to_modify_on_scan c f d = find_row placeholder (items f)"
    using None by (simp add: get_row_to_modify_on_scan_def matching_row_iff placeholder_def [abs_def])
  with no show ?thesis
    by (auto simp: find_row_Some_iff)
next
  case (Some k)
  then have k: "k < length (items f)" "eligible c f d (items f ! k)"
    "\<forall>j<k. \<not> eligible c f d (items f ! j)"
    by (simp_all add: find_row_Some_iff)
  have res: "get_row_to_modify_on_scan c f d = Some k"
    using Some by (simp add: get_row_to_modify_on_scan_def matching_row_iff)
  show ?thesis
  proof
    assume ?L
    with res k show ?R by simp
  next
    assume a: ?R
    from k have "\<not> (\<forall>r\<in>set (items f). \<not> eligible c f d r)"
      using nth_mem by blast
    with a have i: "eligible c f d (items f ! i)" "\<forall>j<i. \<not> eligible c f d (items f ! j)"
      by auto
    from i k have "i = k"
      by (meson linorder_neqE_nat)
    with res show ?L by simp
  qed
qed

lemma get_row_None_iff:
  "get_row_to_modify_on_scan c f d = None \<longleftrightarrow>
     (\<forall>r\<in>set (items f). \<not> eligible c f d r \<and> \<not> placeholder r)"
proof (cases "find_row (eligible c f d) (items f)")
  case None
  then have no: "\<forall>r\<in>set (items f). \<not> eligible c f d r"
    by (simp add: find_row_None_iff)
  have "get_row_to_modify_on_scan c f d = find_row placeholder (items f)"
    using None by (simp add: get_row_to_modify_on_scan_def matching_row_iff placeholder_def [abs_def])
  with no show ?thesis
    by (auto simp: find_row_None_iff)
next
  case (Some k)
  then have "eligible c f d (items f ! k)" "items f ! k \<in> set (items f)"
    by (simp_all add: find_row_Some_iff)
  with Some show ?thesis
    by (auto simp: get_row_to_modify_on_scan_def matching_row_iff)
qed

lemma unset_batch_wins:
  assumes "eligible c f d a"
    and "truthy (batch_no d)" "has_field c (batch_no_field c)"
    and "truthy (str b (batch_no_field c))" "str b (batch_no_field c) \<noteq> batch_no d"
  shows "items f = [a, b] \<longrightarrow> get_row_to_modify_on_scan c f d = Some 0"
    and "items f = [b, a] \<longrightarrow> get_row_to_modify_on_scan c f d = Some 1"
proof -
  have nb: "\<not> eligible c f d b"
    using assms(2-5) by (simp add: eligible_def the_six_predicates_def)
  show "items f = [a, b] \<longrightarrow> get_row_to_modify_on_scan c f d = Some 0"
    using assms(1) by (simp add: get_row_to_modify_on_scan_def matching_row_iff)
  show "items f = [b, a] \<longrightarrow> get_row_to_modify_on_scan c f d = Some 1"
    using assms(1) nb by (simp add: get_row_to_modify_on_scan_def matching_row_iff)
qed

text \<open>
  C1, as the code has it.  \<open>get_row_to_modify_on_scan\<close> returns the first row, in entry
  order, that is eligible: its item code equals the scanned one; when the scan carries a
  batch and the table has the batch property, its batch is unset or the scanned one; when
  the scan carries a UOM, its UOM is that one; when a maximum-quantity property is
  configured, its quantity is strictly below that maximum; it has not been scanned; and
  when the warehouse context is active and the row has a warehouse, that warehouse equals
  the last scanned warehouse or, when none is set, the default warehouse of the scan.
  When no row is eligible it returns the first row whose item code is empty, and nothing
  when there is none.  Of two rows, an eligible one with no batch and one with a batch
  other than the scanned one, the first is returned whatever their order.
\<close>

theorem get_row_to_modify_on_scan_first_eligible:
  "(\<forall>i. get_row_to_modify_on_scan c f d = Some i \<longleftrightarrow>
        i < length (items f) \<and>
        (eligible c f d (items f ! i) \<and> (\<forall>j<i. \<not> eligible c f d (items f ! j))
         \<or> (\<forall>r\<in>set (items f). \<not> eligible c f d r) \<and> placeholder (items f ! i)
             \<and> (\<forall>j<i. \<not> placeholder (items f ! j))))
   \<and> (get_row_to_modify_on_scan c f d = None \<longleftrightarrow>
        (\<forall>r\<in>set (items f). \<not> eligible c f d r \<and> \<not> placeholder r))
   \<and> (\<forall>a b. truthy (batch_no d) \<and> has_field c (batch_no_field c)
          \<and> eligible c f d a \<and> \<not> truthy (str a (batch_no_field c))
          \<and> str b ''item_code'' = str a ''item_code'' \<and> str b (uom_field c) = str a (uom_field c)
          \<and> truthy (str b (batch_no_field c)) \<and> str b (batch_no_field c) \<noteq> batch_no d \<longrightarrow>
          (items f = [a, b] \<longrightarrow> get_row_to_modify_on_scan c f d = Some 0)
          \<and> (items f = [b, a] \<longrightarrow> get_row_to_modify_on_scan c f d = Some 1))"
proof (intro conjI allI impI)
  fix i
  show "get_row_to_modify_on_scan c f d = Some i \<longleftrightarrow>
        i < length (items f) \<and>
        (eligible c f d (items f ! i) \<and> (\<forall>j<i. \<not> eligible c f d (items f ! j))
         \<or> (\<forall>r\<in>set (items f). \<not> eligible c f d r) \<and> placeholder (items f ! i)
             \<and> (\<forall>j<i. \<not> placeholder (items f ! j)))"
    by (rule get_row_Some_iff)
next
  show "get_row_to_modify_on_scan c f d = None \<longleftrightarrow>
        (\<forall>r\<in>set (items f). \<not> eligible c f d r \<and> \<not> placeholder r)"
    by (rule get_row_None_iff)
next
  fix a b
  assume h: "truthy (batch_no d) \<and> has_field c (batch_no_field c)
          \<and> eligible c f d a \<and> \<not> truthy (str a (batch_no_field c))
          \<and> str b ''item_code'' = str a ''item_code'' \<and> str b (uom_field c) = str a (uom_field c)
          \<and> truthy (str b (batch_no_field c)) \<and> str b (batch_no_field c) \<noteq> batch_no d"
    and ab: "items f = [a, b]"
  from h ab unset_batch_wins(1) [of c f d a b]
  show "get_row_to_modify_on_scan c f d = Some 0" by blast
next
  fix a b
  assume h: "truthy (batch_no d) \<and> has_field c (batch_no_field c)
          \<and> eligible c f d a \<and> \<not> truthy (str a (batch_no_field c))
          \<and> str b ''item_code'' = str a ''item_code'' \<and> str b (uom_field c) = str a (uom_field c)
          \<and> truthy (str b (batch_no_field c)) \<and> str b (batch_no_field c) \<noteq> batch_no d"
    and ba: "items f = [b, a]"
  from h ba unset_batch_wins(2) [of c f d a b]
  show "get_row_to_modify_on_scan c f d = Some 1" by blast
qed

theorem get_row_to_modify_on_scan_first_eligible_witness:
  "truthy (batch_no batch_scan) \<and> has_field scanner_defaults (batch_no_field scanner_defaults)
   \<and> eligible scanner_defaults batch_form batch_scan (items batch_form ! 1)
   \<and> \<not> eligible scanner_defaults batch_form batch_scan (items batch_form ! 0)
   \<and> items batch_form = [items batch_form ! 0, items batch_form ! 1]
   \<and> get_row_to_modify_on_scan scanner_defaults batch_form batch_scan = Some 1"
proof -
  let ?a = "items batch_form ! 1" and ?b = "items batch_form ! 0"
  have e: "eligible scanner_defaults batch_form batch_scan ?a"
    by (simp add: eligible_def the_six_predicates_def batch_form_def batch_scan_def
        value_simps example_simps matcher_simps)
  have n: "\<not> eligible scanner_defaults batch_form batch_scan ?b"
    by (simp add: eligible_def the_six_predicates_def batch_form_def batch_scan_def
        value_simps example_simps matcher_simps)
  have h: "truthy (batch_no batch_scan) \<and> has_field scanner_defaults (batch_no_field scanner_defaults)
      \<and> \<not> truthy (str ?a (batch_no_field scanner_defaults))
      \<and> str ?b ''item_code'' = str ?a ''item_code''
      \<and> str ?b (uom_field scanner_defaults) = str ?a (uom_field scanner_defaults)
      \<and> truthy (str ?b (batch_no_field scanner_defaults))
      \<and> str ?b (batch_no_field scanner_defaults) \<noteq> batch_no batch_scan"
    by (simp add: batch_form_def batch_scan_def value_simps example_simps)
  have l: "items batch_form = [?b, ?a]"
    by (simp add: batch_form_def example_simps)
  from get_row_to_modify_on_scan_first_eligible [of scanner_defaults batch_form batch_scan]
  have "truthy (batch_no batch_scan) \<and> has_field scanner_defaults (batch_no_field scanner_defaults)
          \<and> eligible scanner_defaults batch_form batch_scan ?a
          \<and> \<not> truthy (str ?a (batch_no_field scanner_defaults))
          \<and> str ?b ''item_code'' = str ?a ''item_code''
          \<and> str ?b (uom_field scanner_defaults) = str ?a (uom_field scanner_defaults)
          \<and> truthy (str ?b (batch_no_field scanner_defaults))
          \<and> str ?b (batch_no_field scanner_defaults) \<noteq> batch_no batch_scan \<longrightarrow>
          (items batch_form = [?b, ?a] \<longrightarrow>
             get_row_to_modify_on_scan scanner_defaults batch_form batch_scan = Some 1)"
    by blast
  with e h l have "get_row_to_modify_on_scan scanner_defaults batch_form batch_scan = Some 1"
    by blast
  with e n h l show ?thesis by blast
qed

text \<open>
  C1 as it is stated takes the warehouse of the context alone.  With no last scanned
  warehouse, a row of item A in warehouse W2 satisfies the six predicates so read for a
  scan of item A whose default warehouse is W1, and it is not returned.
\<close>

theorem get_row_to_modify_on_scan_context_only_counterexample:
  "the_six_predicates scanner_defaults warehouse_form warehouse_scan
      (last_scanned_warehouse warehouse_form) (items warehouse_form ! 0)
   \<and> get_row_to_modify_on_scan scanner_defaults warehouse_form warehouse_scan = None"
  by (simp add: the_six_predicates_def warehouse_form_def warehouse_scan_def
      value_simps example_simps matcher_simps)

section \<open>Effects of the single steps\<close>

lemma emit_simps [simp]:
  "items (emit e f) = items f"
  "trace (emit e f) = trace f @ [e]"
  "last_scanned_warehouse (emit e f) = last_scanned_warehouse f"
  "has_items (emit e f) = has_items f"
  "hide_serial_batch_dialog (emit e f) = hide_serial_batch_dialog f"
  "trigger_from_barcode_scanner (emit e f) = trigger_from_barcode_scanner f"
  by (simp_all add: emit_def)

lemma put_simps [simp]:
  "str (put_str k v r) = (str r)(k := v)"
  "num (put_str k v r) = num r"
  "str (put_num k n r) = str r"
  "num (put_num k n r) = (num r)(k := n)"
  by (simp_all add: put_str_def put_num_def)

lemma set_str_simps [simp]:
  "items (set_str i k v f) = (items f)[i := put_str k v (items f ! i)]"
  "trace (set_str i k v f) = trace f @ [Set_Value i k]"
  "last_scanned_warehouse (set_str i k v f) = last_scanned_warehouse f"
  "has_items (set_str i k v f) = has_items f"
  "hide_serial_batch_dialog (set_str i k v f) = hide_serial_batch_dialog f"
  "trigger_from_barcode_scanner (set_str i k v f) = trigger_from_barcode_scanner f"
  by (simp_all add: set_str_def)

lemma set_num_simps [simp]:
  "items (set_num i k v f) = (items f)[i := put_num k v (items f ! i)]"
  "trace (set_num i k v f) = trace f @ [Set_Value i k]"
  "last_scanned_warehouse (set_num i k v f) = last_scanned_warehouse f"
  "has_items (set_num i k v f) = has_items f"
  "hide_serial_batch_dialog (set_num i k v f) = hide_serial_batch_dialog f"
  "trigger_from_barcode_scanner (set_num i k v f) = trigger_from_barcode_scanner f"
  by (simp_all add: set_num_def)

lemma clean_up_simps [simp]:
  "items (clean_up f) = items f"
  "trace (clean_up f) = trace f @ [Clean_Up]"
  "last_scanned_warehouse (clean_up f) = last_scanned_warehouse f"
  "has_items (clean_up f) = has_items f"
  "hide_serial_batch_dialog (clean_up f) = hide_serial_batch_dialog f"
  "trigger_from_barcode_scanner (clean_up f) = trigger_from_barcode_scanner f"
  by (simp_all add: clean_up_def)

lemma show_alert_simps [simp]:
  "items (show_alert m k f) = items f"
  "trace (show_alert m k f) = trace f @ [Show_Alert m k]"
  "last_scanned_warehouse (show_alert m k f) = last_scanned_warehouse f"
  "has_items (show_alert m k f) = has_items f"
  "hide_serial_batch_dialog (show_alert m k f) = hide_serial_batch_dialog f"
  "trigger_from_barcode_scanner (show_alert m k f) = trigger_from_barcode_scanner f"
  by (simp_all add: show_alert_def)

lemma trace_steps:
  "trace (set_selector_trigger_flag d f) = trace f @
     optional (\<not> (truthy_flag (has_batch_no d) \<and> \<not> truthy (batch_no d)
                  \<or> truthy_flag (has_serial_no d) \<and> \<not> truthy (serial_no d))) Hide_Selector"
  "trace (set_barcode_uom c i u f) = trace f @
     optional (truthy u \<and> has_field c (uom_field c)) (Set_Value i (uom_field c))"
  "trace (set_serial_no c i sn f) = trace f @
     optional (truthy sn \<and> has_field c (serial_no_field c)) (Set_Value i (serial_no_field c))"
  "trace (set_batch_no c i b f) = trace f @
     optional (truthy b \<and> has_field c (batch_no_field c)) (Set_Value i (batch_no_field c))"
  "trace (set_barcode c i bc f) = trace f @
     optional (truthy bc \<and> has_field c (barcode_field c)) (Set_Value i (barcode_field c))"
  "trace (increment c i code v f) = trace f @ quantity_writes c i"
  "trace (revert_selector_flag f) = trace f @ [Revert_Flags]"
  by (simp_all add: set_selector_trigger_flag_def set_barcode_uom_def set_serial_no_def
      set_batch_no_def set_barcode_def increment_def revert_selector_flag_def optional_def
      quantity_writes_def Let_def)

lemma trace_set_warehouse:
  "\<exists>w. warehouse_write c f i w \<and> trace (set_warehouse c i f) = trace f @ w"
  by (auto simp: set_warehouse_def warehouse_write_def)

lemma trace_show_scan_message:
  "\<exists>m. trace (show_scan_message idx e q f) = trace f @ [Show_Alert m ''green'']"
  by (simp add: show_scan_message_def)

lemma lsw_steps [simp]:
  "last_scanned_warehouse (set_selector_trigger_flag d f) = last_scanned_warehouse f"
  "last_scanned_warehouse (set_barcode_uom c i u f) = last_scanned_warehouse f"
  "last_scanned_warehouse (set_serial_no c i sn f) = last_scanned_warehouse f"
  "last_scanned_warehouse (set_batch_no c i b f) = last_scanned_warehouse f"
  "last_scanned_warehouse (set_barcode c i bc f) = last_scanned_warehouse f"
  "last_scanned_warehouse (set_warehouse c i f) = last_scanned_warehouse f"
  "has_items (set_selector_trigger_flag d f) = has_items f"
  "has_items (set_barcode_uom c i u f) = has_items f"
  "has_items (set_serial_no c i sn f) = has_items f"
  "has_items (set_batch_no c i b f) = has_items f"
  "has_items (set_barcode c i bc f) = has_items f"
  "has_items (set_warehouse c i f) = has_items f"
  by (simp_all add: set_selector_trigger_flag_def set_barcode_uom_def set_serial_no_def
      set_batch_no_def set_barcode_def set_warehouse_def Let_def)

lemma trace_before_set_item:
  "\<exists>w. warehouse_write c f i w
     \<and> trace (before_set_item c i d f) = trace f @ field_writes c d i w"
proof -
  let ?g = "set_barcode c i (barcode d) (set_batch_no c i (batch_no d)
       (set_serial_no c i (serial_no d) (set_barcode_uom c i (uom d)
         (set_selector_trigger_flag d f))))"
  obtain w where w: "warehouse_write c ?g i w" "trace (set_warehouse c i ?g) = trace ?g @ w"
    using trace_set_warehouse [of c ?g i] by blast
  from w(1) have "warehouse_write c f i w"
    by (simp add: warehouse_write_def)
  moreover from w(2) have "trace (before_set_item c i d f) = trace f @ field_writes c d i w"
    by (simp add: before_set_item_def trace_steps field_writes_def)
  ultimately show ?thesis by blast
qed

lemma has_items_before_set_item [simp]:
  "has_items (before_set_item c i d f) = has_items f"
  by (simp add: before_set_item_def)

lemma run_serially_eq:
  "run_serially c i n d answer f =
     (case set_item c i d answer (before_set_item c i d f) of
        (None, f7) \<Rightarrow> (Pending, f7)
      | (Some qty, f7) \<Rightarrow>
          (Resolved (Some i),
           revert_selector_flag (clean_up
             (show_scan_message (num (items f7 ! i) ''idx'') (\<not> n) qty f7))))"
  by (simp add: run_serially_def before_set_item_def Let_def split: prod.splits option.splits)

lemma run_serially_trace:
  "\<exists>w. warehouse_write c f i w
     \<and> follows_sequence c d answer (has_items f) i w (trace f) (run_serially c i n d answer f)"
proof -
  obtain w where w: "warehouse_write c f i w"
    "trace (before_set_item c i d f) = trace f @ field_writes c d i w"
    using trace_before_set_item by blast
  have main: "follows_sequence c d answer (has_items f) i w (trace f)
      (run_serially c i n d answer f)"
    using w(2)
    by (auto simp: follows_sequence_def run_serially_eq set_item_def trace_steps optional_def
        prepare_item_for_scan_def show_scan_message_def revert_selector_flag_def Let_def
        split: option.splits)
  show ?thesis
    by (rule exI [of _ w], rule conjI, rule w(1), rule main)
qed

lemma same_document:
  assumes "items f' = items f" "last_scanned_warehouse f' = last_scanned_warehouse f"
  shows "get_warehouse_field c f' = get_warehouse_field c f"
    and "has_warehouse_field c f' = has_warehouse_field c f"
    and "scan_warehouse c f' d = scan_warehouse c f d"
    and "matching_row c f' d = matching_row c f d"
    and "get_row_to_modify_on_scan c f' d = get_row_to_modify_on_scan c f d"
proof -
  show g: "get_warehouse_field c f' = get_warehouse_field c f"
    using assms by (simp add: get_warehouse_field_def split: warehouse_opt.splits)
  then have s: "scan_warehouse_field c f' = scan_warehouse_field c f"
    by (simp add: scan_warehouse_field_def)
  then show h: "has_warehouse_field c f' = has_warehouse_field c f"
    by (simp add: has_warehouse_field_def)
  then show w: "scan_warehouse c f' d = scan_warehouse c f d"
    using assms by (simp add: scan_warehouse_def)
  show m: "matching_row c f' d = matching_row c f d"
    by (rule ext) (simp only: matching_row_def s h w)
  show "get_row_to_modify_on_scan c f' d = get_row_to_modify_on_scan c f d"
    by (simp only: get_row_to_modify_on_scan_def m assms)
qed

lemma get_row_flag [simp]:
  "get_row_to_modify_on_scan c (f\<lparr>trigger_from_barcode_scanner := b\<rparr>) d
     = get_row_to_modify_on_scan c f d"
  by (rule same_document) simp_all

lemma add_child_simps [simp]:
  "items (add_child c f) = items f @ [new_child c f]"
  "trace (add_child c f) = trace f @ [Add_Child (length (items f))]"
  "last_scanned_warehouse (add_child c f) = last_scanned_warehouse f"
  by (simp_all add: add_child_def)

lemma update_table_found:
  assumes "get_row_to_modify_on_scan c f d = Some i"
  shows "update_table c answer f d =
     (if is_duplicate c (items f ! i) (serial_no d)
      then (Rejected Duplicate_Serial,
            clean_up (show_alert (Serial_No_Already_Added (serial_no d)) ''orange''
              (f\<lparr>trigger_from_barcode_scanner := True\<rparr>)))
      else run_serially c i (placeholder (items f ! i)) d answer
             (f\<lparr>trigger_from_barcode_scanner := True\<rparr>))"
  using assms
  by (simp add: update_table_def is_duplicate_serial_no_def placeholder_def Let_def)

lemma update_table_not_found:
  assumes "get_row_to_modify_on_scan c f d = None"
  shows "update_table c answer f d =
     (if dont_allow_new_row c
      then (Rejected Row_Limit_Exceeded,
            clean_up (show_alert (Maximum_Quantity_Scanned (item_code d)) ''red''
              (f\<lparr>trigger_from_barcode_scanner := True\<rparr>)))
      else if is_duplicate c (new_child c (f\<lparr>trigger_from_barcode_scanner := True\<rparr>)) (serial_no d)
      then (Rejected Duplicate_Serial,
            clean_up (show_alert (Serial_No_Already_Added (serial_no d)) ''orange''
              ((add_child c (f\<lparr>trigger_from_barcode_scanner := True\<rparr>))\<lparr>has_items := False\<rparr>)))
      else run_serially c (length (items f)) True d answer
             ((add_child c (f\<lparr>trigger_from_barcode_scanner := True\<rparr>))\<lparr>has_items := False\<rparr>))"
  using assms
  by (simp add: update_table_def is_duplicate_serial_no_def Let_def)

lemma warehouse_write_cong:
  "last_scanned_warehouse f' = last_scanned_warehouse f \<Longrightarrow>
   warehouse_write c f' i w = warehouse_write c f i w"
  by (simp add: warehouse_write_def)

lemma warehouse_field_isD: "warehouse_field_is c k \<Longrightarrow> get_warehouse_field c f = Some k"
  by (simp add: warehouse_field_is_def get_warehouse_field_def split: warehouse_opt.splits)

lemma serial_field_apartD:
  assumes "serial_field_apart c"
  shows "serial_no_field c \<noteq> batch_no_field c" "serial_no_field c \<noteq> barcode_field c"
    "serial_no_field c \<noteq> ''item_code''" "get_warehouse_field c f \<noteq> Some (serial_no_field c)"
  using assms
  by (auto simp: serial_field_apart_def get_warehouse_field_def split: warehouse_opt.splits)

lemma str_set_str:
  "i < length (items f) \<Longrightarrow>
   str (items (set_str i k v f) ! i) k' = (if k' = k then v else str (items f ! i) k')"
  by simp

lemma str_set_num:
  "str (items (set_num i k v f) ! j) k' = str (items f ! j) k'"
  by (cases "j = i"; cases "i < length (items f)") (simp_all add: list_update_beyond)

lemma length_steps [simp]:
  "length (items (set_selector_trigger_flag d f)) = length (items f)"
  "length (items (set_barcode_uom c i u f)) = length (items f)"
  "length (items (set_serial_no c i sn f)) = length (items f)"
  "length (items (set_batch_no c i b f)) = length (items f)"
  "length (items (set_barcode c i bc f)) = length (items f)"
  "length (items (set_warehouse c i f)) = length (items f)"
  "length (items (increment c i code v f)) = length (items f)"
  "length (items (prepare_item_for_scan c i d f)) = length (items f)"
  "length (items (revert_selector_flag f)) = length (items f)"
  "length (items (show_scan_message idx e q f)) = length (items f)"
  by (simp_all add: set_selector_trigger_flag_def set_barcode_uom_def set_serial_no_def
      set_batch_no_def set_barcode_def set_warehouse_def increment_def prepare_item_for_scan_def
      revert_selector_flag_def show_scan_message_def Let_def)

text \<open>The row at \<open>i\<close> after the steps that follow \<open>set_serial_no\<close>.\<close>

lemma str_later_steps:
  assumes "i < length (items f)"
  shows "k \<noteq> batch_no_field c \<Longrightarrow> str (items (set_batch_no c i b f) ! i) k = str (items f ! i) k"
    and "k \<noteq> barcode_field c \<Longrightarrow> str (items (set_barcode c i bc f) ! i) k = str (items f ! i) k"
    and "get_warehouse_field c f \<noteq> Some k \<Longrightarrow>
         str (items (set_warehouse c i f) ! i) k = str (items f ! i) k"
    and "k \<noteq> ''item_code'' \<Longrightarrow> str (items (increment c i code v f) ! i) k = str (items f ! i) k"
    and "str (items (prepare_item_for_scan c i d f) ! i) k = str (items f ! i) k"
    and "str (items (show_scan_message idx e q f) ! i) k = str (items f ! i) k"
    and "str (items (clean_up f) ! i) k = str (items f ! i) k"
    and "str (items (revert_selector_flag f) ! i) k = str (items f ! i) k"
  using assms
  by (auto simp: set_batch_no_def set_barcode_def set_warehouse_def increment_def
      prepare_item_for_scan_def show_scan_message_def revert_selector_flag_def Let_def
      to_str_def truthy_def split: option.splits)

lemma str_set_item:
  assumes "i < length (items f)" "k \<noteq> ''item_code''"
  shows "str (items (snd (set_item c i d answer f)) ! i) k = str (items f ! i) k"
  using assms
  by (simp add: set_item_def str_later_steps split: option.splits)

lemma length_set_item [simp]:
  "length (items (snd (set_item c i d answer f))) = length (items f)"
  by (simp add: set_item_def split: option.splits)

lemma items_run_serially:
  "items (snd (run_serially c i n d answer f))
     = items (snd (set_item c i d answer (before_set_item c i d f)))"
  by (simp add: run_serially_eq show_scan_message_def revert_selector_flag_def
      split: prod.splits option.splits)

lemma length_before_set_item [simp]:
  "length (items (before_set_item c i d f)) = length (items f)"
  by (simp add: before_set_item_def)

lemma sublist_appended: "sublist s (t @ c # s)"
  by (rule suffix_imp_sublist, rule suffixI [of _ "t @ [c]"]) simp

lemma serial_after_set_serial_no:
  assumes "i < length (items f)" "truthy sn" "has_field c (serial_no_field c)"
  shows "is_duplicate c (items (set_serial_no c i sn f) ! i) sn"
  using assms
  by (auto simp: set_serial_no_def is_duplicate_def js_includes_def Let_def truthy_def to_str_def
      sublist_appended split: option.splits)

lemma is_duplicate_cong:
  "str r' (serial_no_field c) = str r (serial_no_field c) \<Longrightarrow>
   is_duplicate c r' sn = is_duplicate c r sn"
  by (simp add: is_duplicate_def)

lemma serial_after_run_serially:
  assumes i: "i < length (items f)"
    and sn: "truthy (serial_no d)" "has_field c (serial_no_field c)"
    and apart: "serial_field_apart c"
  shows "is_duplicate c (items (snd (run_serially c i n d answer f)) ! i) (serial_no d)"
proof -
  let ?k = "serial_no_field c"
  let ?f2 = "set_barcode_uom c i (uom d) (set_selector_trigger_flag d f)"
  let ?f3 = "set_serial_no c i (serial_no d) ?f2"
  let ?f4 = "set_batch_no c i (batch_no d) ?f3"
  let ?f5 = "set_barcode c i (barcode d) ?f4"
  let ?f6 = "set_warehouse c i ?f5"
  have f6: "before_set_item c i d f = ?f6"
    by (simp add: before_set_item_def)
  have "str (items (snd (run_serially c i n d answer f)) ! i) ?k = str (items ?f6 ! i) ?k"
    using i serial_field_apartD(3) [OF apart]
    by (simp add: items_run_serially f6 str_set_item)
  also have "\<dots> = str (items ?f5 ! i) ?k"
    using i serial_field_apartD(4) [OF apart] by (simp add: str_later_steps)
  also have "\<dots> = str (items ?f4 ! i) ?k"
    using i serial_field_apartD(2) [OF apart] by (simp add: str_later_steps)
  also have "\<dots> = str (items ?f3 ! i) ?k"
    using i serial_field_apartD(1) [OF apart] by (simp add: str_later_steps)
  finally have "is_duplicate c (items (snd (run_serially c i n d answer f)) ! i) (serial_no d)
      = is_duplicate c (items ?f3 ! i) (serial_no d)"
    by (rule is_duplicate_cong)
  moreover have "is_duplicate c (items ?f3 ! i) (serial_no d)"
    using i sn by (simp add: serial_after_set_serial_no)
  ultimately show ?thesis by simp
qed

lemma warehouse_after_run_serially:
  assumes i: "i < length (items f)"
    and ctx: "has_last_scanned_warehouse c" "truthy (last_scanned_warehouse f)"
    and k: "warehouse_field_is c k" "k \<noteq> []" "has_field c k" "k \<noteq> ''item_code''"
  shows "str (items (snd (run_serially c i n d answer f)) ! i) k = last_scanned_warehouse f"
proof -
  let ?f5 = "set_barcode c i (barcode d) (set_batch_no c i (batch_no d)
       (set_serial_no c i (serial_no d) (set_barcode_uom c i (uom d)
         (set_selector_trigger_flag d f))))"
  have f6: "before_set_item c i d f = set_warehouse c i ?f5"
    by (simp add: before_set_item_def)
  have g: "get_warehouse_field c ?f5 = Some k"
    using k(1) by (rule warehouse_field_isD)
  have "str (items (snd (run_serially c i n d answer f)) ! i) k
      = str (items (set_warehouse c i ?f5) ! i) k"
    using i k(4) by (simp add: items_run_serially f6 str_set_item)
  also have "\<dots> = last_scanned_warehouse f"
    using i ctx k g by (simp add: set_warehouse_def truthy_def to_str_def)
  finally show ?thesis .
qed

lemma split_nl_prefix: "split_nl t = l # ls \<Longrightarrow> prefix l t"
proof (induction t arbitrary: l ls)
  case Nil
  then show ?case by simp
next
  case (Cons c cs)
  then show ?case
    by (cases "split_nl cs") (auto split: if_splits)
qed

lemma split_nl_sublist: "s \<in> set (split_nl t) \<Longrightarrow> sublist s t"
proof (induction t arbitrary: s)
  case Nil
  then show ?case by simp
next
  case (Cons c cs)
  show ?case
  proof (cases "c = CHR 0x0A")
    case True
    with Cons show ?thesis
      by (auto simp: sublist_Cons_right)
  next
    case False
    obtain l ls where l: "split_nl cs = l # ls"
      by (cases "split_nl cs") (cases cs, auto split: if_splits list.splits)
    with False Cons.prems have "s = c # l \<or> s \<in> set ls" by simp
    then show ?thesis
    proof
      assume "s = c # l"
      with split_nl_prefix [OF l] show ?thesis by simp
    next
      assume "s \<in> set ls"
      with l have "s \<in> set (split_nl cs)" by simp
      then have "sublist s cs" by (rule Cons.IH)
      then show ?thesis by (simp add: sublist_Cons_right)
    qed
  qed
qed

lemma listed_serial_is_duplicate:
  "s \<in> set (serial_list c r) \<Longrightarrow> is_duplicate c r (Some s)"
  by (auto simp: serial_list_def is_duplicate_def js_includes_def to_str_def truthy_def
      split: option.splits if_splits dest: split_nl_sublist)

lemma update_table_duplicate:
  assumes "get_row_to_modify_on_scan c f d = Some i" "is_duplicate c (items f ! i) (serial_no d)"
  shows "fst (update_table c answer f d) = Rejected Duplicate_Serial"
    and "items (snd (update_table c answer f d)) = items f"
    and "trace (snd (update_table c answer f d))
           = trace f @ [Show_Alert (Serial_No_Already_Added (serial_no d)) ''orange'', Clean_Up]"
  using assms by (simp_all add: update_table_found)

lemma run_serially_not_rejected: "fst (run_serially c i n d answer f) \<noteq> Rejected e"
  by (simp add: run_serially_eq split: prod.splits option.splits)

lemma length_run_serially [simp]:
  "length (items (snd (run_serially c i n d answer f))) = length (items f)"
  by (simp add: items_run_serially)

text \<open>A scan that is not rejected ends in the task list, on a row that exists.\<close>

lemma update_table_accepted:
  assumes "fst (update_table c answer f d) \<notin> range Rejected"
  obtains n g where "update_table c answer f d = run_serially c (scan_row c f d) n d answer g"
    and "scan_row c f d < length (items g)"
    and "last_scanned_warehouse g = last_scanned_warehouse f"
proof (cases "get_row_to_modify_on_scan c f d")
  case (Some j)
  then have j: "j < length (items f)"
    by (simp add: get_row_Some_iff)
  from Some assms have "\<not> is_duplicate c (items f ! j) (serial_no d)"
    by (auto simp: update_table_found)
  with Some j that [of "placeholder (items f ! j)" "f\<lparr>trigger_from_barcode_scanner := True\<rparr>"]
  show ?thesis
    by (simp add: update_table_found scan_row_def)
next
  case None
  let ?f0 = "f\<lparr>trigger_from_barcode_scanner := True\<rparr>"
  from None assms have "\<not> dont_allow_new_row c" "\<not> is_duplicate c (new_child c ?f0) (serial_no d)"
    by (auto simp: update_table_not_found split: if_splits)
  with None that [of True "(add_child c ?f0)\<lparr>has_items := False\<rparr>"]
  show ?thesis
    by (simp add: update_table_not_found scan_row_def)
qed

lemma update_table_records_serial:
  assumes "fst (update_table c answer f d) \<notin> range Rejected"
    and "truthy (serial_no d)" "has_field c (serial_no_field c)" "serial_field_apart c"
  shows "is_duplicate c (items (snd (update_table c answer f d)) ! scan_row c f d) (serial_no d)"
proof -
  obtain n g where g: "update_table c answer f d = run_serially c (scan_row c f d) n d answer g"
    "scan_row c f d < length (items g)"
    using assms(1) by (rule update_table_accepted)
  show ?thesis
    unfolding g(1) using g(2) assms(2-4) by (rule serial_after_run_serially)
qed

lemma update_table_writes_warehouse:
  assumes "fst (update_table c answer f d) \<notin> range Rejected"
    and "has_last_scanned_warehouse c" "truthy (last_scanned_warehouse f)"
    and "warehouse_field_is c k" "k \<noteq> []" "has_field c k" "k \<noteq> ''item_code''"
  shows "str (items (snd (update_table c answer f d)) ! scan_row c f d) k
           = last_scanned_warehouse f"
proof -
  obtain n g where g: "update_table c answer f d = run_serially c (scan_row c f d) n d answer g"
    "scan_row c f d < length (items g)" "last_scanned_warehouse g = last_scanned_warehouse f"
    using assms(1) by (rule update_table_accepted)
  have "str (items (snd (run_serially c (scan_row c f d) n d answer g)) ! scan_row c f d) k
          = last_scanned_warehouse g"
    using g(2) assms(2) _ assms(4-7)
    by (rule warehouse_after_run_serially) (simp add: g(3) assms(3))
  then show ?thesis
    by (simp add: g(1) g(3))
qed

lemma update_table_row_limit:
  assumes "get_row_to_modify_on_scan c f d = None" "dont_allow_new_row c"
  shows "fst (update_table c answer f d) = Rejected Row_Limit_Exceeded"
    and "items (snd (update_table c answer f d)) = items f"
    and "trace (snd (update_table c answer f d))
           = trace f @ [Show_Alert (Maximum_Quantity_Scanned (item_code d)) ''red'', Clean_Up]"
  using assms by (simp_all add: update_table_not_found)

lemma update_table_keeps_length:
  assumes "dont_allow_new_row c"
  shows "length (items (snd (update_table c answer f d))) = length (items f)"
proof (cases "get_row_to_modify_on_scan c f d")
  case None
  with assms show ?thesis by (simp add: update_table_row_limit)
next
  case (Some j)
  then show ?thesis by (simp add: update_table_found)
qed

lemma at_cap_not_eligible:
  assumes "check_max_qty c"
    and "str r ''item_code'' = item_code d \<longrightarrow>
           flt (num r (qty_field c)) = flt (num r (to_str (max_qty_field c)))"
  shows "\<not> eligible c f d r"
  using assms by (auto simp: eligible_def the_six_predicates_def)

section \<open>Properties of the line mutator\<close>

lemmas mutator_simps =
  update_table_def is_duplicate_serial_no_def is_duplicate_def run_serially_def set_item_def
  increment_def prepare_item_for_scan_def set_selector_trigger_flag_def set_barcode_uom_def
  set_serial_no_def set_batch_no_def set_barcode_def set_warehouse_def show_scan_message_def
  revert_selector_flag_def add_child_def js_includes_def

lemmas entry_simps =
  process_scan_def cannot_find_def handle_warehouse_scan_def play_success_sound_def
  play_fail_sound_def is_empty_object_def

lemmas sublist_simps = sublist_Cons_right

text \<open>
  C2, as the code has it.  A scan that \<open>update_table\<close> does not reject works on one row
  (the matched row, or the row it appends first) and adds to the trace, in this order and
  each step after the one before: the selector flag, the UOM, the serial number, the batch
  number, the barcode, the warehouse of the context (each write only when its condition
  holds), and then, by mode: in prompt mode the prompt and, once it is answered, the
  quantity, the message, the clean-up and the reverted flags; without prompt on a form
  that has items and an existing row, the dialog, after which the task list writes no
  field (the quantity is left to the dialog's Update); otherwise the quantity, the
  message, the clean-up and the reverted flags.  A rejected scan writes no field.
\<close>

theorem update_table_write_sequence:
  "\<exists>w. warehouse_write c f (scan_row c f d) w
     \<and> follows_sequence c d answer
         (has_items f \<and> get_row_to_modify_on_scan c f d \<noteq> None) (scan_row c f d) w
         (trace f @ optional (get_row_to_modify_on_scan c f d = None \<and> \<not> dont_allow_new_row c)
                      (Add_Child (scan_row c f d)))
         (update_table c answer f d)"
proof (cases "get_row_to_modify_on_scan c f d")
  case (Some j)
  let ?f0 = "f\<lparr>trigger_from_barcode_scanner := True\<rparr>"
  obtain w where w: "warehouse_write c ?f0 j w"
    and r: "follows_sequence c d answer (has_items ?f0) j w (trace ?f0)
              (run_serially c j (placeholder (items f ! j)) d answer ?f0)"
    using run_serially_trace by blast
  have w': "warehouse_write c f (scan_row c f d) w"
    using w Some by (simp add: scan_row_def warehouse_write_def)
  have "follows_sequence c d answer
         (has_items f \<and> get_row_to_modify_on_scan c f d \<noteq> None) (scan_row c f d) w
         (trace f @ optional (get_row_to_modify_on_scan c f d = None \<and> \<not> dont_allow_new_row c)
                      (Add_Child (scan_row c f d)))
         (update_table c answer f d)"
  proof (cases "is_duplicate c (items f ! j) (serial_no d)")
    case True
    with Some show ?thesis
      by (simp add: update_table_found scan_row_def optional_def follows_sequence_def)
  next
    case False
    with Some r show ?thesis
      by (simp add: update_table_found scan_row_def optional_def)
  qed
  with w' show ?thesis
    by (intro exI [of _ w] conjI)
next
  case None
  let ?f0 = "f\<lparr>trigger_from_barcode_scanner := True\<rparr>"
  let ?f1 = "(add_child c ?f0)\<lparr>has_items := False\<rparr>"
  let ?n = "length (items f)"
  obtain w where w: "warehouse_write c ?f1 ?n w"
    and r: "follows_sequence c d answer (has_items ?f1) ?n w (trace ?f1)
              (run_serially c ?n True d answer ?f1)"
    using run_serially_trace by blast
  have w': "warehouse_write c f (scan_row c f d) w"
    using w None by (simp add: scan_row_def warehouse_write_def)
  have "follows_sequence c d answer
         (has_items f \<and> get_row_to_modify_on_scan c f d \<noteq> None) (scan_row c f d) w
         (trace f @ optional (get_row_to_modify_on_scan c f d = None \<and> \<not> dont_allow_new_row c)
                      (Add_Child (scan_row c f d)))
         (update_table c answer f d)"
  proof (cases "dont_allow_new_row c \<or> is_duplicate c (new_child c ?f0) (serial_no d)")
    case True
    with None show ?thesis
      by (auto simp: update_table_not_found scan_row_def optional_def follows_sequence_def)
  next
    case False
    with None r show ?thesis
      by (simp add: update_table_not_found scan_row_def optional_def)
  qed
  with w' show ?thesis
    by (intro exI [of _ w] conjI)
qed

theorem update_table_write_sequence_witness:
  "(\<exists>w. warehouse_write scanner_defaults one_row_form
           (scan_row scanner_defaults one_row_form barcode_scan) w
       \<and> follows_sequence scanner_defaults barcode_scan None
           (has_items one_row_form
              \<and> get_row_to_modify_on_scan scanner_defaults one_row_form barcode_scan \<noteq> None)
           (scan_row scanner_defaults one_row_form barcode_scan) w
           (trace one_row_form
              @ optional (get_row_to_modify_on_scan scanner_defaults one_row_form barcode_scan = None
                          \<and> \<not> dont_allow_new_row scanner_defaults)
                  (Add_Child (scan_row scanner_defaults one_row_form barcode_scan)))
           (update_table scanner_defaults None one_row_form barcode_scan))
   \<and> fst (update_table scanner_defaults None one_row_form barcode_scan) = Resolved (Some 0)
   \<and> trace (snd (update_table scanner_defaults None one_row_form barcode_scan)) =
       [Hide_Selector, Set_Value 0 ''barcode'', Set_Value 0 ''item_code'',
        Set_Value 0 ''use_serial_batch_fields'', Set_Value 0 ''qty'',
        Show_Alert (Qty_Increased (Some 1) 1) ''green'', Clean_Up, Revert_Flags]
   \<and> num (items (snd (update_table scanner_defaults None one_row_form barcode_scan)) ! 0) ''qty''
       = Some 3"
proof (rule conjI)
  show "\<exists>w. warehouse_write scanner_defaults one_row_form
           (scan_row scanner_defaults one_row_form barcode_scan) w
       \<and> follows_sequence scanner_defaults barcode_scan None
           (has_items one_row_form
              \<and> get_row_to_modify_on_scan scanner_defaults one_row_form barcode_scan \<noteq> None)
           (scan_row scanner_defaults one_row_form barcode_scan) w
           (trace one_row_form
              @ optional (get_row_to_modify_on_scan scanner_defaults one_row_form barcode_scan = None
                          \<and> \<not> dont_allow_new_row scanner_defaults)
                  (Add_Child (scan_row scanner_defaults one_row_form barcode_scan)))
           (update_table scanner_defaults None one_row_form barcode_scan)"
    by (rule update_table_write_sequence)
next
  show "fst (update_table scanner_defaults None one_row_form barcode_scan) = Resolved (Some 0)
   \<and> trace (snd (update_table scanner_defaults None one_row_form barcode_scan)) =
       [Hide_Selector, Set_Value 0 ''barcode'', Set_Value 0 ''item_code'',
        Set_Value 0 ''use_serial_batch_fields'', Set_Value 0 ''qty'',
        Show_Alert (Qty_Increased (Some 1) 1) ''green'', Clean_Up, Revert_Flags]
   \<and> num (items (snd (update_table scanner_defaults None one_row_form barcode_scan)) ! 0) ''qty''
       = Some 3"
    by (simp add: one_row_form_def barcode_scan_def mutator_simps matcher_simps value_simps
        example_simps Let_def)
qed

text \<open>
  C2 as it is stated fails when the form has items and prompt mode is off: the scan
  writes the barcode to the row, then the dialog opens and the promise stays pending; the
  task list writes no quantity and does not clear the flags.
\<close>

theorem update_table_dialog_counterexample:
  "fst (update_table scanner_defaults None dialog_form barcode_scan) = Pending
   \<and> trace (snd (update_table scanner_defaults None dialog_form barcode_scan)) =
       [Hide_Selector, Set_Value 0 ''barcode'', Dialog_Shown 0]
   \<and> str (items (snd (update_table scanner_defaults None dialog_form barcode_scan)) ! 0) ''barcode''
       = Some ''123''
   \<and> num (items (snd (update_table scanner_defaults None dialog_form barcode_scan)) ! 0) ''qty''
       = Some 2
   \<and> hide_serial_batch_dialog (snd (update_table scanner_defaults None dialog_form barcode_scan))
   \<and> trigger_from_barcode_scanner (snd (update_table scanner_defaults None dialog_form barcode_scan))"
  by (simp add: dialog_form_def one_row_form_def barcode_scan_def mutator_simps matcher_simps
      value_simps example_simps Let_def)

text \<open>
  C3.  When the serial number of a scan is in the serial list of the matched row,
  \<open>update_table\<close> rejects the scan as a duplicate before any write: the rows are
  unchanged (so is the serial list), and the only effects are the orange alert and the
  clean-up.  After a scan of a serial number that was not rejected, on a table with the
  serial-number property, a second scan of the same serial number that resolves to the
  same row is rejected as a duplicate and changes no row.
\<close>

theorem duplicate_serial_rejected:
  "(\<forall>i s. get_row_to_modify_on_scan c f d = Some i \<and> serial_no d = Some s
         \<and> s \<in> set (serial_list c (items f ! i)) \<longrightarrow>
       fst (update_table c answer f d) = Rejected Duplicate_Serial
       \<and> items (snd (update_table c answer f d)) = items f
       \<and> length (serial_list c (items (snd (update_table c answer f d)) ! i))
           = length (serial_list c (items f ! i))
       \<and> trace (snd (update_table c answer f d))
           = trace f @ [Show_Alert (Serial_No_Already_Added (Some s)) ''orange'', Clean_Up])
   \<and> (\<forall>s d2 a2. serial_no d = Some s \<and> s \<noteq> [] \<and> has_field c (serial_no_field c)
         \<and> serial_field_apart c
         \<and> fst (update_table c answer f d) \<notin> range Rejected
         \<and> serial_no d2 = Some s
         \<and> get_row_to_modify_on_scan c (snd (update_table c answer f d)) d2
             = Some (scan_row c f d) \<longrightarrow>
       fst (update_table c a2 (snd (update_table c answer f d)) d2) = Rejected Duplicate_Serial
       \<and> items (snd (update_table c a2 (snd (update_table c answer f d)) d2))
           = items (snd (update_table c answer f d)))"
proof (rule conjI; intro allI impI)
  fix i s
  assume h: "get_row_to_modify_on_scan c f d = Some i \<and> serial_no d = Some s
         \<and> s \<in> set (serial_list c (items f ! i))"
  then have dup: "is_duplicate c (items f ! i) (serial_no d)"
    by (simp add: listed_serial_is_duplicate)
  from h have row: "get_row_to_modify_on_scan c f d = Some i" by simp
  from update_table_duplicate [OF row dup, of answer] h
  show "fst (update_table c answer f d) = Rejected Duplicate_Serial
       \<and> items (snd (update_table c answer f d)) = items f
       \<and> length (serial_list c (items (snd (update_table c answer f d)) ! i))
           = length (serial_list c (items f ! i))
       \<and> trace (snd (update_table c answer f d))
           = trace f @ [Show_Alert (Serial_No_Already_Added (Some s)) ''orange'', Clean_Up]"
    by simp
next
  fix s d2 a2
  let ?f1 = "snd (update_table c answer f d)"
  assume h: "serial_no d = Some s \<and> s \<noteq> [] \<and> has_field c (serial_no_field c)
         \<and> serial_field_apart c
         \<and> fst (update_table c answer f d) \<notin> range Rejected
         \<and> serial_no d2 = Some s
         \<and> get_row_to_modify_on_scan c ?f1 d2 = Some (scan_row c f d)"
  then have a: "fst (update_table c answer f d) \<notin> range Rejected" "truthy (serial_no d)"
    "has_field c (serial_no_field c)" "serial_field_apart c"
    by (simp_all add: truthy_def)
  then have "is_duplicate c (items ?f1 ! scan_row c f d) (serial_no d)"
    by (rule update_table_records_serial)
  with h have dup: "is_duplicate c (items ?f1 ! scan_row c f d) (serial_no d2)"
    by simp
  from h have row: "get_row_to_modify_on_scan c ?f1 d2 = Some (scan_row c f d)" by simp
  from update_table_duplicate(1,2) [OF row dup, of a2]
  show "fst (update_table c a2 ?f1 d2) = Rejected Duplicate_Serial
       \<and> items (snd (update_table c a2 ?f1 d2)) = items ?f1"
    by simp
qed

theorem duplicate_serial_rejected_witness:
  "fst (update_table scanner_defaults None one_row_form (serial_scan ''S1'')) = Resolved (Some 0)
   \<and> ''S1'' \<in> set (serial_list scanner_defaults
        (items (snd (update_table scanner_defaults None one_row_form (serial_scan ''S1''))) ! 0))
   \<and> fst (update_table scanner_defaults None
        (snd (update_table scanner_defaults None one_row_form (serial_scan ''S1'')))
        (serial_scan ''S1'')) = Rejected Duplicate_Serial
   \<and> items (snd (update_table scanner_defaults None
        (snd (update_table scanner_defaults None one_row_form (serial_scan ''S1'')))
        (serial_scan ''S1'')))
       = items (snd (update_table scanner_defaults None one_row_form (serial_scan ''S1'')))"
proof -
  let ?d = "serial_scan ''S1''"
  let ?f1 = "snd (update_table scanner_defaults None one_row_form ?d)"
  have first: "fst (update_table scanner_defaults None one_row_form ?d) = Resolved (Some 0)"
    by (simp add: one_row_form_def serial_scan_def mutator_simps matcher_simps value_simps
        example_simps Let_def)
  have listed: "''S1'' \<in> set (serial_list scanner_defaults (items ?f1 ! 0))"
    by (simp add: serial_list_def one_row_form_def serial_scan_def mutator_simps matcher_simps
        value_simps example_simps Let_def)
  have target: "scan_row scanner_defaults one_row_form ?d = 0"
    by (simp add: scan_row_def one_row_form_def serial_scan_def matcher_simps value_simps
        example_simps)
  have again: "get_row_to_modify_on_scan scanner_defaults ?f1 ?d = Some 0"
    by (simp add: one_row_form_def serial_scan_def mutator_simps matcher_simps value_simps
        example_simps Let_def)
  have h: "serial_no ?d = Some ''S1'' \<and> ''S1'' \<noteq> []
      \<and> has_field scanner_defaults (serial_no_field scanner_defaults)
      \<and> serial_field_apart scanner_defaults
      \<and> fst (update_table scanner_defaults None one_row_form ?d) \<notin> range Rejected
      \<and> serial_no ?d = Some ''S1''
      \<and> get_row_to_modify_on_scan scanner_defaults ?f1 ?d
           = Some (scan_row scanner_defaults one_row_form ?d)"
  proof -
    have "serial_no ?d = Some ''S1''"
      by (simp add: serial_scan_def scan_of_item_def)
    moreover have "has_field scanner_defaults (serial_no_field scanner_defaults)"
      by (simp add: scanner_defaults_def)
    moreover have "serial_field_apart scanner_defaults"
      by (simp add: serial_field_apart_def scanner_defaults_def)
    moreover have "fst (update_table scanner_defaults None one_row_form ?d) \<notin> range Rejected"
      unfolding first by blast
    moreover have "get_row_to_modify_on_scan scanner_defaults ?f1 ?d
           = Some (scan_row scanner_defaults one_row_form ?d)"
      unfolding again target by (rule refl)
    ultimately show ?thesis by simp
  qed
  from duplicate_serial_rejected [of scanner_defaults one_row_form ?d None]
  have "serial_no ?d = Some ''S1'' \<and> ''S1'' \<noteq> []
      \<and> has_field scanner_defaults (serial_no_field scanner_defaults)
      \<and> serial_field_apart scanner_defaults
      \<and> fst (update_table scanner_defaults None one_row_form ?d) \<notin> range Rejected
      \<and> serial_no ?d = Some ''S1''
      \<and> get_row_to_modify_on_scan scanner_defaults ?f1 ?d
           = Some (scan_row scanner_defaults one_row_form ?d) \<longrightarrow>
    fst (update_table scanner_defaults None ?f1 ?d) = Rejected Duplicate_Serial
    \<and> items (snd (update_table scanner_defaults None ?f1 ?d)) = items ?f1"
    by blast
  with h first listed show ?thesis by blast
qed

text \<open>
  C10.  The duplicate test is containment in the text of the serial-number property:
  whenever the scanned serial number occurs as a contiguous part of that text, the scan
  is rejected and no row changes, also when it is not one of the listed serial numbers
  (S1 against a row that holds S12).
\<close>

theorem substring_serial_rejected:
  "\<forall>i s t. get_row_to_modify_on_scan c f d = Some i \<and> serial_no d = Some s
       \<and> str (items f ! i) (serial_no_field c) = Some t \<and> sublist s t \<longrightarrow>
     fst (update_table c answer f d) = Rejected Duplicate_Serial
     \<and> items (snd (update_table c answer f d)) = items f"
proof (intro allI impI)
  fix i s t
  assume h: "get_row_to_modify_on_scan c f d = Some i \<and> serial_no d = Some s
       \<and> str (items f ! i) (serial_no_field c) = Some t \<and> sublist s t"
  then have dup: "is_duplicate c (items f ! i) (serial_no d)"
    by (simp add: is_duplicate_def js_includes_def to_str_def)
  from h have row: "get_row_to_modify_on_scan c f d = Some i" by simp
  from update_table_duplicate(1,2) [OF row dup, of answer]
  show "fst (update_table c answer f d) = Rejected Duplicate_Serial
     \<and> items (snd (update_table c answer f d)) = items f"
    by simp
qed

theorem substring_serial_rejected_witness:
  "get_row_to_modify_on_scan scanner_defaults serial_form (serial_scan ''S1'') = Some 0
   \<and> str (items serial_form ! 0) (serial_no_field scanner_defaults) = Some ''S12''
   \<and> sublist ''S1'' ''S12''
   \<and> ''S1'' \<notin> set (serial_list scanner_defaults (items serial_form ! 0))
   \<and> fst (update_table scanner_defaults None serial_form (serial_scan ''S1''))
       = Rejected Duplicate_Serial
   \<and> items (snd (update_table scanner_defaults None serial_form (serial_scan ''S1'')))
       = items serial_form"
proof -
  let ?d = "serial_scan ''S1''"
  have h: "get_row_to_modify_on_scan scanner_defaults serial_form ?d = Some 0
      \<and> serial_no ?d = Some ''S1''
      \<and> str (items serial_form ! 0) (serial_no_field scanner_defaults) = Some ''S12''
      \<and> sublist ''S1'' ''S12''"
    by (simp add: serial_form_def serial_scan_def matcher_simps value_simps example_simps
        sublist_simps)
  have n: "''S1'' \<notin> set (serial_list scanner_defaults (items serial_form ! 0))"
    by (simp add: serial_list_def serial_form_def value_simps example_simps)
  from substring_serial_rejected [of scanner_defaults serial_form ?d None]
  have "get_row_to_modify_on_scan scanner_defaults serial_form ?d = Some 0
      \<and> serial_no ?d = Some ''S1''
      \<and> str (items serial_form ! 0) (serial_no_field scanner_defaults) = Some ''S12''
      \<and> sublist ''S1'' ''S12'' \<longrightarrow>
    fst (update_table scanner_defaults None serial_form ?d) = Rejected Duplicate_Serial
    \<and> items (snd (update_table scanner_defaults None serial_form ?d)) = items serial_form"
    by blast
  with h n show ?thesis by blast
qed

text \<open>
  C6.  When the matcher yields no row and new rows are not allowed, \<open>update_table\<close>
  rejects the scan: the rows are unchanged, and the only effects are the red alert and
  the clean-up.  This is so in particular when every row has an item code and the rows of
  the scanned item are at their maximum quantity.  While new rows are not allowed, no
  scan changes the number of rows.
\<close>

theorem row_limit_exceeded:
  "(get_row_to_modify_on_scan c f d = None \<and> dont_allow_new_row c \<longrightarrow>
      fst (update_table c answer f d) = Rejected Row_Limit_Exceeded
      \<and> items (snd (update_table c answer f d)) = items f
      \<and> trace (snd (update_table c answer f d))
          = trace f @ [Show_Alert (Maximum_Quantity_Scanned (item_code d)) ''red'', Clean_Up])
   \<and> (dont_allow_new_row c \<and> check_max_qty c
       \<and> (\<forall>r\<in>set (items f). truthy (str r ''item_code'')
             \<and> (str r ''item_code'' = item_code d \<longrightarrow>
                  flt (num r (qty_field c)) = flt (num r (to_str (max_qty_field c))))) \<longrightarrow>
      fst (update_table c answer f d) = Rejected Row_Limit_Exceeded
      \<and> items (snd (update_table c answer f d)) = items f)
   \<and> (dont_allow_new_row c \<longrightarrow>
      length (items (snd (update_table c answer f d))) = length (items f))"
proof (intro conjI impI)
  assume h: "get_row_to_modify_on_scan c f d = None \<and> dont_allow_new_row c"
  then have n: "get_row_to_modify_on_scan c f d = None" and p: "dont_allow_new_row c"
    by simp_all
  from update_table_row_limit [OF n p, of answer]
  show "fst (update_table c answer f d) = Rejected Row_Limit_Exceeded"
    and "items (snd (update_table c answer f d)) = items f"
    and "trace (snd (update_table c answer f d))
          = trace f @ [Show_Alert (Maximum_Quantity_Scanned (item_code d)) ''red'', Clean_Up]"
    by simp_all
next
  assume h: "dont_allow_new_row c \<and> check_max_qty c
       \<and> (\<forall>r\<in>set (items f). truthy (str r ''item_code'')
             \<and> (str r ''item_code'' = item_code d \<longrightarrow>
                  flt (num r (qty_field c)) = flt (num r (to_str (max_qty_field c)))))"
  have "\<not> eligible c f d r \<and> \<not> placeholder r" if "r \<in> set (items f)" for r
  proof -
    from h that have r: "truthy (str r ''item_code'')"
      "str r ''item_code'' = item_code d \<longrightarrow>
         flt (num r (qty_field c)) = flt (num r (to_str (max_qty_field c)))"
      by simp_all
    from h have "check_max_qty c" by simp
    then have "\<not> eligible c f d r" using r(2) by (rule at_cap_not_eligible)
    with r(1) show ?thesis by (simp add: placeholder_def)
  qed
  then have n: "get_row_to_modify_on_scan c f d = None"
    by (simp add: get_row_None_iff)
  from h have p: "dont_allow_new_row c" by simp
  from update_table_row_limit(1,2) [OF n p, of answer]
  show "fst (update_table c answer f d) = Rejected Row_Limit_Exceeded"
    and "items (snd (update_table c answer f d)) = items f"
    by simp_all
next
  assume "dont_allow_new_row c"
  then show "length (items (snd (update_table c answer f d))) = length (items f)"
    by (rule update_table_keeps_length)
qed

theorem row_limit_exceeded_witness:
  "dont_allow_new_row pick_list_options \<and> check_max_qty pick_list_options
   \<and> length (items capped_form) = 1
   \<and> str (items capped_form ! 0) ''item_code'' = item_code (scan_of_item ''B'')
   \<and> flt (num (items capped_form ! 0) (qty_field pick_list_options)) = 4
   \<and> flt (num (items capped_form ! 0) (to_str (max_qty_field pick_list_options))) = 4
   \<and> get_row_to_modify_on_scan pick_list_options capped_form (scan_of_item ''B'') = None
   \<and> fst (update_table pick_list_options None capped_form (scan_of_item ''B''))
       = Rejected Row_Limit_Exceeded
   \<and> items (snd (update_table pick_list_options None capped_form (scan_of_item ''B'')))
       = items capped_form
   \<and> length (items (snd (update_table pick_list_options None capped_form (scan_of_item ''B''))))
       = 1"
proof -
  let ?d = "scan_of_item ''B''"
  have h: "dont_allow_new_row pick_list_options \<and> check_max_qty pick_list_options
      \<and> (\<forall>r\<in>set (items capped_form). truthy (str r ''item_code'')
            \<and> (str r ''item_code'' = item_code ?d \<longrightarrow>
                 flt (num r (qty_field pick_list_options))
                   = flt (num r (to_str (max_qty_field pick_list_options)))))"
    by (simp add: capped_form_def check_max_qty_def value_simps example_simps)
  have n: "get_row_to_modify_on_scan pick_list_options capped_form ?d = None"
    by (simp add: capped_form_def matcher_simps value_simps example_simps)
  have l: "length (items capped_form) = 1"
    "str (items capped_form ! 0) ''item_code'' = item_code ?d"
    "flt (num (items capped_form ! 0) (qty_field pick_list_options)) = 4"
    "flt (num (items capped_form ! 0) (to_str (max_qty_field pick_list_options))) = 4"
    by (simp_all add: capped_form_def value_simps example_simps)
  from row_limit_exceeded [of pick_list_options capped_form ?d None] h
  have "fst (update_table pick_list_options None capped_form ?d) = Rejected Row_Limit_Exceeded
      \<and> items (snd (update_table pick_list_options None capped_form ?d)) = items capped_form"
    by blast
  with h n l show ?thesis by simp
qed

section \<open>Properties of the scan entry point\<close>

text \<open>
  C7, as the code has it.  A scan whose reply carries a warehouse changes no row.  On a
  form that has \<open>last_scanned_warehouse\<close> it resolves without a row, sets
  \<open>last_scanned_warehouse\<close> to that warehouse and shows the green alert; on a form
  without it the scan is rejected as not found and \<open>last_scanned_warehouse\<close> stays as
  it was.  While a warehouse \<open>w\<close> is the last scanned one, every item scan that is not
  rejected leaves \<open>w\<close> in the warehouse property of its row.
\<close>

theorem warehouse_scan_sets_context:
  "(\<forall>d. truthy (scan_value f) \<and> api (to_str (scan_value f)) = Message (Some d)
        \<and> truthy (warehouse d) \<longrightarrow>
      items (snd (process_scan c api answer f)) = items f
      \<and> (if has_last_scanned_warehouse c
         then fst (process_scan c api answer f) = Resolved None
              \<and> last_scanned_warehouse (snd (process_scan c api answer f)) = warehouse d
              \<and> trace (snd (process_scan c api answer f))
                  = trace f @ [Api_Call (to_str (scan_value f)),
                               Show_Alert (Warehouse_Will_Be_Set (warehouse d)) ''green'']
                      @ optional (success_sound c) Play_Success
         else fst (process_scan c api answer f) = Rejected Cannot_Find
              \<and> last_scanned_warehouse (snd (process_scan c api answer f))
                  = last_scanned_warehouse f
              \<and> trace (snd (process_scan c api answer f))
                  = trace f @ [Api_Call (to_str (scan_value f)),
                               Show_Alert Cannot_Find_Item ''red'', Clean_Up]
                      @ optional (fail_sound c) Play_Fail))
   \<and> (\<forall>w k. has_last_scanned_warehouse c \<and> last_scanned_warehouse g = Some w \<and> w \<noteq> []
        \<and> warehouse_field_is c k \<and> k \<noteq> [] \<and> has_field c k \<and> k \<noteq> ''item_code''
        \<and> fst (update_table c a2 g d2) \<notin> range Rejected \<longrightarrow>
      str (items (snd (update_table c a2 g d2)) ! scan_row c g d2) k = Some w)"
proof (rule conjI; intro allI impI)
  fix d
  assume h: "truthy (scan_value f) \<and> api (to_str (scan_value f)) = Message (Some d)
        \<and> truthy (warehouse d)"
  then have "\<not> is_empty_object d"
    by (auto simp: is_empty_object_def truthy_def)
  with h show "items (snd (process_scan c api answer f)) = items f
      \<and> (if has_last_scanned_warehouse c
         then fst (process_scan c api answer f) = Resolved None
              \<and> last_scanned_warehouse (snd (process_scan c api answer f)) = warehouse d
              \<and> trace (snd (process_scan c api answer f))
                  = trace f @ [Api_Call (to_str (scan_value f)),
                               Show_Alert (Warehouse_Will_Be_Set (warehouse d)) ''green'']
                      @ optional (success_sound c) Play_Success
         else fst (process_scan c api answer f) = Rejected Cannot_Find
              \<and> last_scanned_warehouse (snd (process_scan c api answer f))
                  = last_scanned_warehouse f
              \<and> trace (snd (process_scan c api answer f))
                  = trace f @ [Api_Call (to_str (scan_value f)),
                               Show_Alert Cannot_Find_Item ''red'', Clean_Up]
                      @ optional (fail_sound c) Play_Fail)"
    by (simp add: process_scan_def cannot_find_def handle_warehouse_scan_def
        play_success_sound_def play_fail_sound_def optional_def Let_def)
next
  fix w k
  assume h: "has_last_scanned_warehouse c \<and> last_scanned_warehouse g = Some w \<and> w \<noteq> []
        \<and> warehouse_field_is c k \<and> k \<noteq> [] \<and> has_field c k \<and> k \<noteq> ''item_code''
        \<and> fst (update_table c a2 g d2) \<notin> range Rejected"
  then have a: "fst (update_table c a2 g d2) \<notin> range Rejected" "has_last_scanned_warehouse c"
    "truthy (last_scanned_warehouse g)" "warehouse_field_is c k" "k \<noteq> []" "has_field c k"
    "k \<noteq> ''item_code''"
    by (simp_all add: truthy_def)
  then have "str (items (snd (update_table c a2 g d2)) ! scan_row c g d2) k
      = last_scanned_warehouse g"
    by (rule update_table_writes_warehouse)
  with h show "str (items (snd (update_table c a2 g d2)) ! scan_row c g d2) k = Some w"
    by simp
qed

theorem warehouse_scan_sets_context_witness:
  "truthy (scan_value (scanned ''WH-STORES'' one_row_form))
   \<and> truthy (warehouse warehouse_reply)
   \<and> fst (process_scan scanner_defaults (\<lambda>_. Message (Some warehouse_reply)) None
        (scanned ''WH-STORES'' one_row_form)) = Resolved None
   \<and> items (snd (process_scan scanner_defaults (\<lambda>_. Message (Some warehouse_reply)) None
        (scanned ''WH-STORES'' one_row_form))) = items one_row_form
   \<and> last_scanned_warehouse (snd (process_scan scanner_defaults
        (\<lambda>_. Message (Some warehouse_reply)) None (scanned ''WH-STORES'' one_row_form)))
       = Some ''Stores''
   \<and> fst (update_table scanner_defaults None
        (snd (process_scan scanner_defaults (\<lambda>_. Message (Some warehouse_reply)) None
           (scanned ''WH-STORES'' one_row_form))) barcode_scan) = Resolved (Some 0)
   \<and> str (items (snd (update_table scanner_defaults None
        (snd (process_scan scanner_defaults (\<lambda>_. Message (Some warehouse_reply)) None
           (scanned ''WH-STORES'' one_row_form))) barcode_scan)) ! 0) ''warehouse''
       = Some ''Stores''"
proof -
  let ?api = "\<lambda>_::string. Message (Some warehouse_reply)"
  let ?f = "scanned ''WH-STORES'' one_row_form"
  let ?g = "snd (process_scan scanner_defaults ?api None ?f)"
  note inst = warehouse_scan_sets_context [of ?f ?api scanner_defaults None ?g None barcode_scan]
  have h1: "truthy (scan_value ?f) \<and> ?api (to_str (scan_value ?f)) = Message (Some warehouse_reply)
      \<and> truthy (warehouse warehouse_reply)"
    by (simp add: scanned_def warehouse_reply_def truthy_def)
  have c: "has_last_scanned_warehouse scanner_defaults"
    by (simp add: scanner_defaults_def)
  from inst h1 c
  have p1: "items ?g = items ?f \<and> fst (process_scan scanner_defaults ?api None ?f) = Resolved None
      \<and> last_scanned_warehouse ?g = warehouse warehouse_reply"
    by (simp only: if_True) blast
  then have lsw: "last_scanned_warehouse ?g = Some ''Stores''"
    by (simp add: warehouse_reply_def)
  have items: "items ?f = items one_row_form"
    by (simp add: scanned_def)
  have acc: "fst (update_table scanner_defaults None ?g barcode_scan) = Resolved (Some 0)"
    by (simp add: scanned_def one_row_form_def barcode_scan_def warehouse_reply_def entry_simps
        mutator_simps matcher_simps value_simps example_simps Let_def)
  have row: "scan_row scanner_defaults ?g barcode_scan = 0"
    by (simp add: scan_row_def scanned_def one_row_form_def barcode_scan_def warehouse_reply_def
        entry_simps matcher_simps value_simps example_simps Let_def)
  have h2: "has_last_scanned_warehouse scanner_defaults
      \<and> last_scanned_warehouse ?g = Some ''Stores'' \<and> ''Stores'' \<noteq> []
      \<and> warehouse_field_is scanner_defaults ''warehouse'' \<and> ''warehouse'' \<noteq> []
      \<and> has_field scanner_defaults ''warehouse'' \<and> ''warehouse'' \<noteq> ''item_code''
      \<and> fst (update_table scanner_defaults None ?g barcode_scan) \<notin> range Rejected"
  proof -
    have "warehouse_field_is scanner_defaults ''warehouse''"
      "has_field scanner_defaults ''warehouse''"
      by (simp_all add: warehouse_field_is_def scanner_defaults_def)
    moreover have "fst (update_table scanner_defaults None ?g barcode_scan) \<notin> range Rejected"
      unfolding acc by blast
    ultimately show ?thesis using c lsw by simp
  qed
  from inst h2
  have "str (items (snd (update_table scanner_defaults None ?g barcode_scan))
          ! scan_row scanner_defaults ?g barcode_scan) ''warehouse'' = Some ''Stores''"
    by blast
  with row have "str (items (snd (update_table scanner_defaults None ?g barcode_scan)) ! 0)
      ''warehouse'' = Some ''Stores''"
    by simp
  with h1 p1 lsw items acc show ?thesis by simp
qed

text \<open>
  C7 as it is stated fails on a form without \<open>last_scanned_warehouse\<close>: the warehouse
  scan is rejected and sets nothing.
\<close>

theorem warehouse_scan_without_field_counterexample:
  "truthy (warehouse warehouse_reply)
   \<and> fst (process_scan no_warehouse_context (\<lambda>_. Message (Some warehouse_reply)) None
        (scanned ''WH-STORES'' one_row_form)) = Rejected Cannot_Find
   \<and> last_scanned_warehouse (snd (process_scan no_warehouse_context
        (\<lambda>_. Message (Some warehouse_reply)) None (scanned ''WH-STORES'' one_row_form))) = None"
  by (simp add: no_warehouse_context_def warehouse_reply_def scanned_def one_row_form_def
      entry_simps value_simps example_simps Let_def)

text \<open>
  C9, as the code has it.  On an empty scan field \<open>process_scan\<close> returns at once: no
  call to the scan API, no alert, no change to the rows; its promise is neither resolved
  nor rejected.
\<close>

theorem empty_scan_returns:
  "\<not> truthy (scan_value f) \<longrightarrow>
     fst (process_scan c api answer f) = Pending
     \<and> items (snd (process_scan c api answer f)) = items f
     \<and> trace (snd (process_scan c api answer f)) = trace f"
  by (simp add: process_scan_def Let_def)

theorem empty_scan_returns_witness:
  "\<not> truthy (scan_value (scanned [] one_row_form))
   \<and> fst (process_scan scanner_defaults (\<lambda>_. Message (Some (scan_of_item ''A''))) None
        (scanned [] one_row_form)) = Pending
   \<and> items (snd (process_scan scanner_defaults (\<lambda>_. Message (Some (scan_of_item ''A''))) None
        (scanned [] one_row_form))) = items one_row_form
   \<and> trace (snd (process_scan scanner_defaults (\<lambda>_. Message (Some (scan_of_item ''A''))) None
        (scanned [] one_row_form))) = []"
proof -
  have h: "\<not> truthy (scan_value (scanned [] one_row_form))"
    by (simp add: scanned_def truthy_def)
  have "items (scanned [] one_row_form) = items one_row_form" "trace (scanned [] one_row_form) = []"
    by (simp_all add: scanned_def one_row_form_def empty_form_def)
  with h empty_scan_returns [of "scanned [] one_row_form" scanner_defaults
      "\<lambda>_. Message (Some (scan_of_item ''A''))" None]
  show ?thesis by simp
qed

text \<open>
  C9 as it is stated fails for an input of one space, which is truthy: it is sent to the
  scan API, and the scan is reported as not found.
\<close>

theorem whitespace_scan_counterexample:
  "fst (process_scan scanner_defaults (\<lambda>_. Message None) None (scanned '' '' one_row_form))
     = Rejected Cannot_Find
   \<and> trace (snd (process_scan scanner_defaults (\<lambda>_. Message None) None
        (scanned '' '' one_row_form)))
       = [Api_Call '' '', Show_Alert Cannot_Find_Item_Or_Warehouse ''red'', Clean_Up]"
  by (simp add: scanned_def one_row_form_def entry_simps value_simps example_simps Let_def)

section \<open>Properties of the dialog\<close>

lemma primary_action_eq:
  "primary_action c dlg f =
     clean_up (add_child_for_remaining_qty c (d_row dlg) (dialog_written c dlg f))"
  by (simp add: primary_action_def dialog_written_def Let_def)

lemma remaining_steps [simp]:
  "remaining_qty (emit e f) = remaining_qty f"
  "remaining_qty (set_str i k v f) = remaining_qty f"
  "remaining_qty (set_num i k n f) = remaining_qty f"
  "remaining_qty (set_batch_no c i b f) = remaining_qty f"
  "remaining_qty (set_barcode c i bc f) = remaining_qty f"
  "remaining_qty (set_serial_no c i sn f) = remaining_qty f"
  by (simp_all add: emit_def set_str_def set_num_def set_batch_no_def set_barcode_def
      set_serial_no_def Let_def)

lemma num_steps:
  "num (items (set_str i k v f) ! j) k' = num (items f ! j) k'"
  "num (items (set_batch_no c i b f) ! j) k' = num (items f ! j) k'"
  "num (items (set_barcode c i bc f) ! j) k' = num (items f ! j) k'"
  "num (items (set_serial_no c i sn f) ! j) k' = num (items f ! j) k'"
proof -
  show a: "num (items (set_str i k v f) ! j) k' = num (items f ! j) k'" for i k v f
    by (cases "j = i"; cases "i < length (items f)") (simp_all add: list_update_beyond)
  show "num (items (set_batch_no c i b f) ! j) k' = num (items f ! j) k'"
    by (simp add: set_batch_no_def a del: set_str_simps)
  show "num (items (set_barcode c i bc f) ! j) k' = num (items f ! j) k'"
    by (simp add: set_barcode_def a del: set_str_simps)
  show "num (items (set_serial_no c i sn f) ! j) k' = num (items f ! j) k'"
    by (simp add: set_serial_no_def a Let_def del: set_str_simps)
qed

lemma other_rows_steps:
  assumes "j \<noteq> i"
  shows "items (set_str i k v f) ! j = items f ! j"
    and "items (set_num i k n f) ! j = items f ! j"
    and "items (set_batch_no c i b f) ! j = items f ! j"
    and "items (set_barcode c i bc f) ! j = items f ! j"
    and "items (set_serial_no c i sn f) ! j = items f ! j"
  using assms
  by (simp_all add: set_batch_no_def set_barcode_def set_serial_no_def Let_def)

lemma dialog_written_facts:
  "length (items (dialog_written c dlg f)) = length (items f)"
  "remaining_qty (dialog_written c dlg f) = Some (flt (d_qty dlg) - flt (d_scanned_qty dlg))"
  "j \<noteq> d_row dlg \<Longrightarrow> items (dialog_written c dlg f) ! j = items f ! j"
  "d_row dlg < length (items f) \<Longrightarrow> qty_field c \<noteq> ''has_item_scanned'' \<Longrightarrow>
     num (items (dialog_written c dlg f) ! d_row dlg) (qty_field c) = d_scanned_qty dlg"
  by (simp_all add: dialog_written_def Let_def num_steps other_rows_steps)

lemma copy_row_simps:
  "str (copy_row p r) k = (if has_key p k \<and> k \<notin> set ignore_fields then str p k else str r k)"
  "num (copy_row p r) k = (if has_key p k \<and> k \<notin> set ignore_fields then num p k else num r k)"
  "void (copy_row p r) k = (if has_key p k \<and> k \<notin> set ignore_fields then void p k else void r k)"
  by (simp_all add: copy_row_def)

lemma add_child_for_remaining_qty_eq:
  assumes "remaining_qty f = Some x" "0 < x" "prev < length (items f)"
  shows "items (add_child_for_remaining_qty c prev f) =
     items f @ [remaining_row c x (items f ! prev) (new_child c f)]"
  using assms
  by (simp add: add_child_for_remaining_qty_def remaining_row_def truthy_num_def flt_def Let_def
      nth_append cong: option.case_cong)

lemma add_child_for_remaining_qty_none:
  assumes "remaining_qty f = Some x" "x \<le> 0"
  shows "add_child_for_remaining_qty c prev f = f"
  using assms by (simp add: add_child_for_remaining_qty_def truthy_num_def flt_def)

lemma items_primary_action:
  assumes "d_qty dlg = Some q" "d_scanned_qty dlg = Some sc" "sc < q"
    and "d_row dlg < length (items f)"
  shows "items (primary_action c dlg f) =
     items (dialog_written c dlg f) @
       [remaining_row c (q - sc) (items (dialog_written c dlg f) ! d_row dlg)
          (new_child c (dialog_written c dlg f))]"
proof -
  let ?g = "dialog_written c dlg f"
  have "remaining_qty ?g = Some (q - sc)"
    using assms(1,2) by (simp add: dialog_written_facts flt_def)
  moreover have "0 < q - sc"
    using assms(3) by simp
  moreover have "d_row dlg < length (items ?g)"
    using assms(4) by (simp add: dialog_written_facts)
  ultimately have "items (add_child_for_remaining_qty c (d_row dlg) ?g) =
     items ?g @ [remaining_row c (q - sc) (items ?g ! d_row dlg) (new_child c ?g)]"
    by (rule add_child_for_remaining_qty_eq)
  then show ?thesis
    by (simp add: primary_action_eq)
qed

text \<open>
  The rows after the operator has confirmed a scanned quantity \<open>sc\<close> strictly below the
  quantity to scan \<open>q\<close>: the table has one row more, the other rows are as before, the
  source row is as the dialog wrote it, and the row at the end is the row for the
  remaining quantity \<open>q - sc\<close>.
\<close>

lemma primary_action_rows:
  assumes "d_qty dlg = Some q" "d_scanned_qty dlg = Some sc" "sc < q"
    and "d_row dlg < length (items f)"
  shows "length (items (primary_action c dlg f)) = length (items f) + 1"
    and "j < length (items f) \<Longrightarrow> j \<noteq> d_row dlg \<Longrightarrow> items (primary_action c dlg f) ! j = items f ! j"
    and "items (primary_action c dlg f) ! d_row dlg = items (dialog_written c dlg f) ! d_row dlg"
    and "items (primary_action c dlg f) ! length (items f) =
           remaining_row c (q - sc) (items (dialog_written c dlg f) ! d_row dlg)
             (new_child c (dialog_written c dlg f))"
  using assms(4)
  by (simp_all add: items_primary_action [OF assms] nth_append dialog_written_facts)

text \<open>
  The row for the remaining quantity.  Its quantity is the remaining quantity.  For each
  of the seven names name, idx, batch_no, barcode, received_qty, serial_no and
  has_item_scanned it holds what the framework gave the new row, not what the previous
  row holds.  Every other property that the previous row has, it holds as the previous
  row does, also when that is \<open>null\<close>; a property that the previous row lacks it holds
  as the framework gave it.  With \<open>qty\<close> as the quantity property on a table that has
  \<open>stock_qty\<close>, its \<open>stock_qty\<close> is the product of the remaining quantity and its
  conversion factor, or \<open>NaN\<close>.
\<close>

lemma remaining_row_qty:
  "num (remaining_row c x p r) (qty_field c) = Some x"
  by (simp add: remaining_row_def assign_num_def assign_nan_def Let_def split: option.splits)

lemma remaining_row_str:
  "str (remaining_row c x p r) k = str (copy_row p r) k"
  by (simp add: remaining_row_def assign_num_def assign_nan_def Let_def split: option.splits)

lemma remaining_row_num:
  assumes "k \<noteq> qty_field c" "k \<noteq> ''stock_qty''"
  shows "num (remaining_row c x p r) k = num (copy_row p r) k"
    and "void (remaining_row c x p r) k = void (copy_row p r) k"
  using assms
  by (auto simp: remaining_row_def assign_num_def assign_nan_def Let_def split: option.splits)

lemma remaining_row_ignored:
  assumes "k \<in> {''name'', ''idx'', ''batch_no'', ''barcode'', ''received_qty'', ''serial_no'',
                ''has_item_scanned''}"
  shows "str (remaining_row c x p r) k = str r k"
    and "k \<noteq> qty_field c \<Longrightarrow> num (remaining_row c x p r) k = num r k"
    and "k \<noteq> qty_field c \<Longrightarrow> void (remaining_row c x p r) k = void r k"
proof -
  from assms have i: "k \<in> set ignore_fields" and s: "k \<noteq> ''stock_qty''"
    by (auto simp: ignore_fields_def)
  show "str (remaining_row c x p r) k = str r k"
    using i by (simp add: remaining_row_str copy_row_simps)
  show "num (remaining_row c x p r) k = num r k" if "k \<noteq> qty_field c"
    using i s that by (simp add: remaining_row_num copy_row_simps)
  show "void (remaining_row c x p r) k = void r k" if "k \<noteq> qty_field c"
    using i s that by (simp add: remaining_row_num copy_row_simps)
qed

lemma remaining_row_copied:
  assumes "k \<notin> {''name'', ''idx'', ''batch_no'', ''barcode'', ''received_qty'', ''serial_no'',
                ''has_item_scanned''}"
  shows "str (remaining_row c x p r) k = (if has_key p k then str p k else str r k)"
    and "k \<noteq> qty_field c \<Longrightarrow> k \<noteq> ''stock_qty'' \<Longrightarrow>
           num (remaining_row c x p r) k = (if has_key p k then num p k else num r k)"
    and "k \<noteq> qty_field c \<Longrightarrow> k \<noteq> ''stock_qty'' \<Longrightarrow>
           void (remaining_row c x p r) k = (if has_key p k then void p k else void r k)"
proof -
  from assms have i: "k \<notin> set ignore_fields"
    by (simp add: ignore_fields_def)
  show "str (remaining_row c x p r) k = (if has_key p k then str p k else str r k)"
    using i by (simp add: remaining_row_str copy_row_simps)
  show "num (remaining_row c x p r) k = (if has_key p k then num p k else num r k)"
    if "k \<noteq> qty_field c" "k \<noteq> ''stock_qty''"
    using i that by (simp add: remaining_row_num copy_row_simps)
  show "void (remaining_row c x p r) k = (if has_key p k then void p k else void r k)"
    if "k \<noteq> qty_field c" "k \<noteq> ''stock_qty''"
    using i that by (simp add: remaining_row_num copy_row_simps)
qed

lemma remaining_row_stock_qty:
  assumes "qty_field c = ''qty''" "has_field c ''stock_qty''"
  shows "num (remaining_row c x p r) ''stock_qty''
           = times x (assign_num ''qty'' x (copy_row p r)) ''conversion_factor''"
    and "void (remaining_row c x p r) ''stock_qty''
           = (if times x (assign_num ''qty'' x (copy_row p r)) ''conversion_factor'' = None
              then Some NaN else None)"
  using assms
  by (auto simp: remaining_row_def assign_num_def assign_nan_def Let_def split: option.splits)

lemma times_copied:
  "times x (assign_num ''qty'' x (copy_row p r)) ''conversion_factor''
     = times x (if has_key p ''conversion_factor'' then p else r) ''conversion_factor''"
  by (cases "has_key p ''conversion_factor''")
    (simp_all add: times_def assign_num_def copy_row_simps ignore_fields_def
      cong: option.case_cong)

lemma times_cases:
  "num r k = Some y \<Longrightarrow> times x r k = Some (x * y)"
  "num r k = None \<Longrightarrow> void r k = Some Null \<Longrightarrow> times x r k = Some 0"
  "num r k = None \<Longrightarrow> void r k \<noteq> Some Null \<Longrightarrow> times x r k = None"
  by (auto simp: times_def split: option.splits void.splits)

text \<open>
  When neither the previous row nor the new row has a conversion factor, the
  \<open>stock_qty\<close> of the row for the remaining quantity is \<open>NaN\<close>; when the previous row
  holds \<open>null\<close> for it, it is \<open>0\<close>.
\<close>

lemma remaining_row_stock_qty_nan:
  assumes "qty_field c = ''qty''" "has_field c ''stock_qty''"
    and "\<not> has_key p ''conversion_factor''" "\<not> has_key r ''conversion_factor''"
  shows "num (remaining_row c x p r) ''stock_qty'' = None"
    and "void (remaining_row c x p r) ''stock_qty'' = Some NaN"
proof -
  from assms(4) have "num r ''conversion_factor'' = None" "void r ''conversion_factor'' \<noteq> Some Null"
    by (simp_all add: has_key_def)
  then have "times x r ''conversion_factor'' = None"
    by (rule times_cases(3))
  with assms(3) show "num (remaining_row c x p r) ''stock_qty'' = None"
    and "void (remaining_row c x p r) ''stock_qty'' = Some NaN"
    by (simp_all add: remaining_row_stock_qty [OF assms(1,2)] times_copied)
qed

lemma remaining_row_stock_qty_null:
  assumes "qty_field c = ''qty''" "has_field c ''stock_qty''"
    and "num p ''conversion_factor'' = None" "void p ''conversion_factor'' = Some Null"
  shows "num (remaining_row c x p r) ''stock_qty'' = Some 0"
proof -
  from assms(4) have "has_key p ''conversion_factor''"
    by (simp add: has_key_def)
  moreover from assms(3,4) have "times x p ''conversion_factor'' = Some 0"
    by (rule times_cases(2))
  ultimately show ?thesis
    by (simp add: remaining_row_stock_qty [OF assms(1,2)] times_copied)
qed

text \<open>
  The two quantities: the source row has the scanned quantity, the row for the remaining
  quantity has the rest, and the two sum to the quantity to scan.
\<close>

lemma primary_action_quantities:
  assumes "d_qty dlg = Some q" "d_scanned_qty dlg = Some sc" "sc < q"
    and "d_row dlg < length (items f)" "qty_field c \<noteq> ''has_item_scanned''"
  shows "num (items (primary_action c dlg f) ! d_row dlg) (qty_field c) = Some sc"
    and "num (items (primary_action c dlg f) ! length (items f)) (qty_field c) = Some (q - sc)"
    and "flt (num (items (primary_action c dlg f) ! d_row dlg) (qty_field c))
           + flt (num (items (primary_action c dlg f) ! length (items f)) (qty_field c)) = q"
proof -
  show a: "num (items (primary_action c dlg f) ! d_row dlg) (qty_field c) = Some sc"
    using assms(2,4,5)
    by (simp add: primary_action_rows(3) [OF assms(1-4)] dialog_written_facts)
  show b: "num (items (primary_action c dlg f) ! length (items f)) (qty_field c) = Some (q - sc)"
    by (simp add: primary_action_rows(4) [OF assms(1-4)] remaining_row_qty)
  show "flt (num (items (primary_action c dlg f) ! d_row dlg) (qty_field c))
           + flt (num (items (primary_action c dlg f) ! length (items f)) (qty_field c)) = q"
    by (simp add: a b flt_def)
qed

text \<open>
  With the names the constructor chooses when the caller gives none, the row for the
  remaining quantity has no batch number, barcode or serial number of the source row.
\<close>

lemma remaining_row_default_names:
  assumes "batch_no_field c = ''batch_no''" "barcode_field c = ''barcode''"
    and "serial_no_field c = ''serial_no''"
  shows "str (remaining_row c x p r) (batch_no_field c) = str r ''batch_no''"
    and "str (remaining_row c x p r) (barcode_field c) = str r ''barcode''"
    and "str (remaining_row c x p r) (serial_no_field c) = str r ''serial_no''"
  using assms by (simp_all add: remaining_row_ignored)

text \<open>A write never takes a property out of a row, and a value written makes it one.\<close>

lemma has_key_put:
  "has_key (put_str k v r) k' = (if k' = k then v \<noteq> None \<or> has_key r k else has_key r k')"
  "has_key (put_num k n r) k' = (if k' = k then n \<noteq> None \<or> has_key r k else has_key r k')"
  by (auto simp: has_key_def put_str_def put_num_def)

lemma put_void [simp]:
  "void (put_str k (Some s) r) = (void r)(k := None)"
  "void (put_num k (Some n) r) = (void r)(k := None)"
  by (simp_all add: put_str_def put_num_def)

lemma row_steps:
  assumes "i < length (items f)"
  shows "items (set_str i k v f) ! i = put_str k v (items f ! i)"
    and "items (set_num i k n f) ! i = put_num k n (items f ! i)"
    and "items (set_batch_no c i b f) ! i =
           (if truthy b \<and> has_field c (batch_no_field c)
            then put_str (batch_no_field c) b (items f ! i) else items f ! i)"
    and "items (set_barcode c i bc f) ! i =
           (if truthy bc \<and> has_field c (barcode_field c)
            then put_str (barcode_field c) bc (items f ! i) else items f ! i)"
    and "items (set_serial_no c i sn f) ! i =
           (if truthy sn \<and> has_field c (serial_no_field c)
            then put_str (serial_no_field c)
                   (if truthy (str (items f ! i) (serial_no_field c))
                    then Some (to_str (str (items f ! i) (serial_no_field c)) @ [CHR 0x0A] @ to_str sn)
                    else sn) (items f ! i)
            else items f ! i)"
  using assms
  by (simp_all add: set_batch_no_def set_barcode_def set_serial_no_def Let_def)

text \<open>
  C4 fails for a scanner whose batch-number property is not \<open>batch_no\<close>.  The dialog is
  the one \<open>set_item\<close> opens through \<open>prepare_item_for_scan\<close>; its \<open>Update\<close> writes the
  batch number to the property the options name, and \<open>add_child_for_remaining_qty\<close>
  leaves out the seven names it lists, whatever the options name.  With \<open>lot_no\<close> as the
  batch-number property, on a row of 5 of item A, the operator confirms 2 of batch LOT12:
  two rows result, the source row with 2 and a new row with 3, and the new row has the
  batch number LOT12 of the source row.  It has none of the source row's \<open>batch_no\<close>,
  barcode, serial number, received quantity and has-item-scanned flag, it has the name and
  idx the framework gave it, and it has the other properties of the source row, the
  \<open>null\<close> cost center among them.
\<close>

theorem primary_action_carries_configured_batch:
  "(let f' = primary_action lot_options split_dialog split_form;
        src = items f' ! 0; sib = items f' ! 1
    in length (items f') = 2
       \<and> num src ''qty'' = Some 2 \<and> num sib ''qty'' = Some 3
       \<and> str src (batch_no_field lot_options) = Some ''LOT12''
       \<and> str sib (batch_no_field lot_options) = Some ''LOT12''
       \<and> str src ''batch_no'' = Some ''LOT7'' \<and> str sib ''batch_no'' = None
       \<and> str src ''barcode'' = Some ''123'' \<and> str sib ''barcode'' = None
       \<and> str src ''serial_no'' = Some ''S1'' \<and> str sib ''serial_no'' = None
       \<and> num src ''received_qty'' = Some 1 \<and> num sib ''received_qty'' = None
       \<and> num src ''has_item_scanned'' = Some 1 \<and> num sib ''has_item_scanned'' = None
       \<and> str src ''name'' = Some ''row-1'' \<and> str sib ''name'' = Some ''new-item''
       \<and> num src ''idx'' = Some 1 \<and> num sib ''idx'' = Some 2
       \<and> str sib ''item_code'' = Some ''A'' \<and> str sib ''warehouse'' = Some ''Stores''
       \<and> num sib ''stock_qty'' = Some 3
       \<and> str sib ''cost_center'' = None \<and> void sib ''cost_center'' = Some Null)"
proof -
  let ?c = lot_options
  let ?f' = "primary_action ?c split_dialog split_form"
  let ?g = "dialog_written ?c split_dialog split_form"
  let ?f4 = "emit Dialog_Hidden (set_num 0 ''has_item_scanned'' (Some 1)
      (set_num 0 ''qty'' (Some 2) (set_str 0 ''item_code'' (Some ''A'')
        (split_form\<lparr>remaining_qty := Some 3\<rparr>))))"
  let ?f5 = "set_batch_no ?c 0 (Some ''LOT12'') ?f4"
  let ?f6 = "set_barcode ?c 0 (Some ''123'') ?f5"
  let ?r4 = "put_num ''has_item_scanned'' (Some 1) (put_num ''qty'' (Some 2)
      (put_str ''item_code'' (Some ''A'') split_row))"
  let ?r5 = "put_str ''lot_no'' (Some ''LOT12'') ?r4"
  let ?r6 = "put_str ''barcode'' (Some ''123'') ?r5"
  let ?src = "put_str ''serial_no'' (Some ''S1'') ?r6"
  let ?fresh = "mk_row [(''name'', ''new-item''), (''cost_center'', ''Main'')] [(''idx'', 2)]"
  let ?sib = "remaining_row ?c 3 ?src ?fresh"
  have h: "d_qty split_dialog = Some 5" "d_scanned_qty split_dialog = Some 2" "(2::rat) < 5"
    "d_row split_dialog < length (items split_form)"
    by (simp_all add: split_dialog_def split_form_def empty_form_def)
  have n: "length (items split_form) = 1" "d_row split_dialog = 0"
    by (simp_all add: split_dialog_def split_form_def empty_form_def)
  have c: "qty_field ?c = ''qty''" "batch_no_field ?c = ''lot_no''"
    "barcode_field ?c = ''barcode''" "serial_no_field ?c = ''serial_no''"
    "has_field ?c ''stock_qty''" "has_field ?c ''lot_no''" "has_field ?c ''barcode''"
    "has_field ?c ''serial_no''"
    by (simp_all add: lot_options_def scanner_defaults_def)
  have g: "?g = set_serial_no ?c 0 (Some ''S1'') ?f6"
    by (simp add: dialog_written_def split_dialog_def c flt_def Let_def)
  have r4: "items ?f4 ! 0 = ?r4"
    by (simp add: split_form_def empty_form_def)
  have l4: "0 < length (items ?f4)"
    by (simp add: split_form_def empty_form_def)
  have r5: "items ?f5 ! 0 = ?r5"
    using row_steps(3) [OF l4, of ?c "Some ''LOT12''"] by (simp only: r4 c truthy_def) simp
  have l5: "0 < length (items ?f5)"
    using l4 by (simp only: length_steps)
  have r6: "items ?f6 ! 0 = ?r6"
    using row_steps(4) [OF l5, of ?c "Some ''123''"] by (simp only: r5 c truthy_def) simp
  have l6: "0 < length (items ?f6)"
    using l5 by (simp only: length_steps)
  have e: "str ?r6 ''serial_no'' = None"
    by (simp add: split_row_def mk_row_def)
  have r7: "items ?g ! 0 = ?src"
    using row_steps(5) [OF l6, of ?c "Some ''S1''"] unfolding g
    by (simp only: r6 c e truthy_def) simp
  have s: "str ?src ''lot_no'' = Some ''LOT12''" "str ?src ''batch_no'' = Some ''LOT7''"
    "str ?src ''barcode'' = Some ''123''" "str ?src ''serial_no'' = Some ''S1''"
    "str ?src ''name'' = Some ''row-1''" "str ?src ''item_code'' = Some ''A''"
    "str ?src ''warehouse'' = Some ''Stores''" "str ?src ''cost_center'' = None"
    by (simp_all add: split_row_def mk_row_def)
  have m: "num ?src ''qty'' = Some 2" "num ?src ''received_qty'' = Some 1"
    "num ?src ''has_item_scanned'' = Some 1" "num ?src ''idx'' = Some 1"
    "num ?src ''conversion_factor'' = Some 1"
    by (simp_all add: split_row_def mk_row_def)
  have v: "void ?src ''cost_center'' = Some Null"
    by (simp add: split_row_def mk_row_def)
  have fresh: "new_child ?c ?g = ?fresh"
    by (simp add: lot_options_def scanner_defaults_def dialog_written_facts n)
  have len: "length (items ?f') = 2"
    using primary_action_rows(1) [OF h, of ?c] n by simp
  have src: "items ?f' ! 0 = ?src"
    using primary_action_rows(3) [OF h, of ?c] by (simp only: n r7)
  have sib: "items ?f' ! 1 = ?sib"
    using primary_action_rows(4) [OF h, of ?c] by (simp only: n r7 fresh) simp
  have q: "num ?sib ''qty'' = Some 3"
    using remaining_row_qty [of ?c 3 ?src ?fresh] by (simp only: c)
  have i: "str ?sib ''batch_no'' = None" "str ?sib ''barcode'' = None"
    "str ?sib ''serial_no'' = None" "num ?sib ''received_qty'' = None"
    "num ?sib ''has_item_scanned'' = None" "str ?sib ''name'' = Some ''new-item''"
    "num ?sib ''idx'' = Some 2"
    by (simp_all add: remaining_row_ignored c mk_row_def)
  have p: "str ?sib ''lot_no'' = Some ''LOT12''" "str ?sib ''item_code'' = Some ''A''"
    "str ?sib ''warehouse'' = Some ''Stores''" "str ?sib ''cost_center'' = None"
    by (subst remaining_row_copied(1); simp add: has_key_def split_row_def mk_row_def)+
  have w: "void ?sib ''cost_center'' = Some Null"
    by (subst remaining_row_copied(3)) (simp_all add: has_key_def c split_row_def mk_row_def)
  have t: "num ?sib ''stock_qty'' = Some 3"
  proof -
    have "times 3 (assign_num ''qty'' 3 (copy_row ?src ?fresh)) ''conversion_factor''
        = times 3 ?src ''conversion_factor''"
      by (subst times_copied) (simp add: has_key_def split_row_def mk_row_def)
    moreover have "times 3 ?src ''conversion_factor'' = Some 3"
      by (simp add: times_def split_row_def mk_row_def)
    ultimately show ?thesis
      by (simp only: remaining_row_stock_qty(1) [OF c(1) c(5)])
  qed
  show ?thesis
    unfolding Let_def src sib c
    by (simp only: len s m q i p w t simp_thms)
qed

section \<open>Properties of the stock availability check\<close>

lemma get_available_stock_simps:
  "fst (get_available_stock server code wh p) = server code wh"
  "pos_items (snd (get_available_stock server code wh p)) = pos_items p"
  "remote_calls (snd (get_available_stock server code wh p)) = remote_calls p @ [(code, wh)]"
  "cached (snd (get_available_stock server code wh p)) k1 k2 =
     (if k1 = to_str code \<and> k2 = to_str wh then Some (server code wh) else cached p k1 k2)"
  by (auto simp: get_available_stock_def cached_def Let_def split: option.splits)

lemma clear_doc_simps [simp]:
  "remote_calls (clear_doc n p) = remote_calls p"
  "item_stock_map (clear_doc n p) = item_stock_map p"
  "cached (clear_doc n p) = cached p"
  by (simp_all add: clear_doc_def cached_def fun_eq_iff split: option.splits)

lemma cached_frozen [simp]: "cached (p\<lparr>frozen := b\<rparr>) = cached p"
  by (simp add: cached_def fun_eq_iff)

lemma check_stock_availability_eq:
  assumes "server (str item_row ''item_code'') wh = (available_qty, is_stock_item, neg)"
  shows "check_stock_availability server item_row qty_needed wh p =
     (let p2 = (snd (get_available_stock server (str item_row ''item_code'') wh p))\<lparr>frozen := False\<rparr>
      in if str item_row ''stock_uom'' = None \<or> str item_row ''item_code'' = None \<or> wh = None
         then (Inl Type_Error, p2)
         else if neg then (Inr (), p2)
         else if \<not> (available_qty > 0) then
           (if is_stock_item then (Inl Not_Available, clear_doc (str item_row ''name'') p2)
            else (Inr (), p2))
         else if is_stock_item \<and> available_qty < qty_needed then (Inl Not_Enough, p2)
         else (Inr (), p2\<lparr>frozen := True\<rparr>))"
  using assms
  by (simp add: check_stock_availability_def get_available_stock_def Let_def)

lemma check_after_query:
  "remote_calls (snd (check_stock_availability server item_row qty_needed wh p))
     = remote_calls (snd (get_available_stock server (str item_row ''item_code'') wh p))"
  "cached (snd (check_stock_availability server item_row qty_needed wh p))
     = cached (snd (get_available_stock server (str item_row ''item_code'') wh p))"
proof -
  obtain a s n where r: "server (str item_row ''item_code'') wh = (a, s, n)"
    by (cases "server (str item_row ''item_code'') wh") auto
  show "remote_calls (snd (check_stock_availability server item_row qty_needed wh p))
     = remote_calls (snd (get_available_stock server (str item_row ''item_code'') wh p))"
    by (simp add: check_stock_availability_eq [where server = server and item_row = item_row and wh = wh, OF r] Let_def)
  show "cached (snd (check_stock_availability server item_row qty_needed wh p))
     = cached (snd (get_available_stock server (str item_row ''item_code'') wh p))"
    by (simp add: check_stock_availability_eq [where server = server and item_row = item_row and wh = wh, OF r] Let_def)
qed

lemma check_remote_calls:
  "remote_calls (snd (check_stock_availability server item_row qty_needed wh p))
     = remote_calls p @ [(str item_row ''item_code'', wh)]"
  by (simp only: check_after_query get_available_stock_simps)

lemma check_cached:
  "cached (snd (check_stock_availability server item_row qty_needed wh p)) k1 k2 =
     (if k1 = to_str (str item_row ''item_code'') \<and> k2 = to_str wh
      then Some (server (str item_row ''item_code'') wh) else cached p k1 k2)"
  by (simp only: check_after_query get_available_stock_simps)

lemma check_ignores_cache:
  "fst (check_stock_availability server item_row qty_needed wh (p\<lparr>item_stock_map := m\<rparr>))
     = fst (check_stock_availability server item_row qty_needed wh p)"
proof -
  obtain a s n where r: "server (str item_row ''item_code'') wh = (a, s, n)"
    by (cases "server (str item_row ''item_code'') wh") auto
  show ?thesis
    by (simp add: check_stock_availability_eq [where server = server and item_row = item_row and wh = wh, OF r] Let_def)
qed

lemma pos_items_query [simp]:
  "pos_items ((snd (get_available_stock server code wh p))\<lparr>frozen := b\<rparr>) = pos_items p"
  by (simp add: get_available_stock_simps)

lemmas pos_simps = check_stock_availability_def get_available_stock_def clear_doc_def cached_def



text \<open>
  C8, as the code has it.  Every availability check makes one remote call for its item
  code and warehouse, stores the reply as the snapshot of that pair and leaves the other
  snapshots as they are; its result does not depend on what \<open>item_stock_map\<close> holds.
\<close>

theorem check_stock_availability_queries:
  "remote_calls (snd (check_stock_availability server item_row qty_needed wh p))
     = remote_calls p @ [(str item_row ''item_code'', wh)]
   \<and> cached (snd (check_stock_availability server item_row qty_needed wh p))
        (to_str (str item_row ''item_code'')) (to_str wh)
       = Some (server (str item_row ''item_code'') wh)
   \<and> (\<forall>k1 k2. (k1, k2) \<noteq> (to_str (str item_row ''item_code''), to_str wh) \<longrightarrow>
        cached (snd (check_stock_availability server item_row qty_needed wh p)) k1 k2
          = cached p k1 k2)
   \<and> (\<forall>m. fst (check_stock_availability server item_row qty_needed wh (p\<lparr>item_stock_map := m\<rparr>))
          = fst (check_stock_availability server item_row qty_needed wh p))"
  by (auto simp: check_remote_calls check_cached check_ignores_cache)

theorem check_stock_availability_queries_witness:
  "remote_calls (snd (check_stock_availability in_stock cart_row_b 1 (Some ''Stores'') cart))
     = [(Some ''B'', Some ''Stores'')]
   \<and> cached (snd (check_stock_availability in_stock cart_row_b 1 (Some ''Stores'') cart))
       ''B'' ''Stores'' = Some (5, True, False)
   \<and> cached (snd (check_stock_availability in_stock cart_row_b 1 (Some ''Stores'') cart))
       ''A'' ''Stores'' = None"
proof -
  let ?r = cart_row_b
  let ?p = "snd (check_stock_availability in_stock ?r 1 (Some ''Stores'') cart)"
  have r: "str ?r ''item_code'' = Some ''B''" "remote_calls cart = []"
    "cached cart ''A'' ''Stores'' = None"
    by (simp_all add: cart_def cart_row_b_def mk_row_def cached_def)
  note q = check_stock_availability_queries [of in_stock ?r 1 "Some ''Stores''" cart]
  from q have 1: "remote_calls ?p = remote_calls cart @ [(str ?r ''item_code'', Some ''Stores'')]"
    by (rule conjunct1)
  from q have 2: "cached ?p (to_str (str ?r ''item_code'')) (to_str (Some ''Stores''))
          = Some (in_stock (str ?r ''item_code'') (Some ''Stores''))"
    by (elim conjE)
  from q have "\<forall>k1 k2. (k1, k2) \<noteq> (to_str (str ?r ''item_code''), to_str (Some ''Stores'')) \<longrightarrow>
        cached ?p k1 k2 = cached cart k1 k2"
    by (elim conjE)
  then have "(''A'', ''Stores'') \<noteq> (to_str (str ?r ''item_code''), to_str (Some ''Stores'')) \<longrightarrow>
        cached ?p ''A'' ''Stores'' = cached cart ''A'' ''Stores''"
    by (elim allE)
  then have 3: "cached ?p ''A'' ''Stores'' = None"
    by (simp add: r to_str_def)
  from 1 have 1: "remote_calls ?p = [(Some ''B'', Some ''Stores'')]"
    by (simp only: r append_Nil)
  from 2 have 2: "cached ?p ''B'' ''Stores'' = Some (5, True, False)"
    by (simp only: r to_str_def in_stock_def option.case)
  from 1 2 3 show ?thesis by (intro conjI)
qed

text \<open>
  C8 as it is stated fails on two successive checks of the same item and warehouse: the
  first stores the snapshot (5, stock item), the second makes a second remote call and
  fails on its fresh reply (0, stock item) although the snapshot covers the quantity.
\<close>

theorem check_stock_availability_requery_counterexample:
  "cached (snd (check_stock_availability in_stock cart_row_b 1 (Some ''Stores'') cart))
      ''B'' ''Stores'' = Some (5, True, False)
   \<and> remote_calls (snd (check_stock_availability out_of_stock cart_row_b 1 (Some ''Stores'')
        (snd (check_stock_availability in_stock cart_row_b 1 (Some ''Stores'') cart))))
       = [(Some ''B'', Some ''Stores''), (Some ''B'', Some ''Stores'')]
   \<and> fst (check_stock_availability out_of_stock cart_row_b 1 (Some ''Stores'')
        (snd (check_stock_availability in_stock cart_row_b 1 (Some ''Stores'') cart)))
       = Inl Not_Available"
  by (simp add: cart_def cart_row_b_def mk_row_def in_stock_def out_of_stock_def pos_simps
      to_str_def Let_def)

end
